theory Spec2Isabelle
  imports Main
begin

section \<open>JavaScript objects and ordered maps\<close>

text \<open>
  A JavaScript object (\<^verbatim>\<open>Record<string, any>\<close>) and an ES \<^verbatim>\<open>Map\<close> both keep
  their keys in insertion order and hold every key once. They are association
  lists here. Assigning to a key that is present replaces its value in place;
  assigning to a new key appends it. (The engine's ordering of integer-like
  keys ahead of the others is left out: no property below depends on it.)
\<close>

datatype jsval = JStr string | JNum int | JBool bool | JUndefined

type_synonym props = "(string \<times> jsval) list"

fun assoc_set :: "'k \<Rightarrow> 'v \<Rightarrow> ('k \<times> 'v) list \<Rightarrow> ('k \<times> 'v) list" where
  "assoc_set k v [] = [(k, v)]"
| "assoc_set k v ((k', v') # xs) =
     (if k' = k then (k, v) # xs else (k', v') # assoc_set k v xs)"

text \<open>The object spread \<^verbatim>\<open>{ ...a, ...b }\<close>: the entries of \<open>a\<close>, then each entry
  of \<open>b\<close> assigned in turn.\<close>

definition spread :: "('k \<times> 'v) list \<Rightarrow> ('k \<times> 'v) list \<Rightarrow> ('k \<times> 'v) list" where
  "spread a b = fold (\<lambda>(k, v). assoc_set k v) b a"

section \<open>ScriptLoader (src/utils/scriptLoader.ts)\<close>

text \<open>
  The static class \<^verbatim>\<open>ScriptLoader\<close> with its two static fields, together with
  the part of the browser it touches: the promises it creates, the
  \<^verbatim>\<open>script\<close> elements of the document, and the load and error events those
  elements fire later.

  A promise is a number, its index in \<open>promises\<close>. A promise made by
  \<^verbatim>\<open>new Promise\<close> or \<^verbatim>\<open>Promise.resolve()\<close> has a state of its own (\<open>Own\<close>).
  \<^verbatim>\<open>loadScript\<close> is an \<^verbatim>\<open>async\<close> function: every call makes a new promise and
  returns it, and the value the body returns, itself a promise, resolves it; it
  is a \<open>Wrapper\<close> of that promise and takes its state (the few microtasks this
  takes are not modelled). The caller's \<^verbatim>\<open>onLoad\<close> and \<^verbatim>\<open>onError\<close> closures
  are opaque: a configuration carries a tag for each, and \<open>invoked\<close> records
  the calls. They are taken to return normally.
\<close>

datatype settled = Pending | Fulfilled | Rejected

datatype promise = Own settled | Wrapper nat

datatype callback = OnLoad nat | OnError nat

datatype lookup = Throws | Found | NotFound

record scriptConfig =
  sc_src :: string
  sc_async :: "bool option"
  sc_defer :: "bool option"
  sc_onLoad :: "nat option"
  sc_onError :: "nat option"

record element =
  el_src :: string
  el_async :: bool
  el_defer :: bool
  el_promise :: nat
  el_onLoad :: "nat option"
  el_onError :: "nat option"

record loader =
  loadedScripts :: "string list"
  loadingPromises :: "(string \<times> nat) list"
  promises :: "promise list"
  document :: "string list"
  appended :: "element list"
  fired :: "nat list"
  invoked :: "callback list"
  hasWindow :: bool
  selectors :: "string \<Rightarrow> string list \<Rightarrow> lookup"


text \<open>
  \<^verbatim>\<open>document.querySelector(`script[src="${src}"]`)\<close>. The \<^verbatim>\<open>src\<close> is pasted
  into the selector between double quotes. When it has no double quote, no
  backslash and no control character (\<open>plain\<close>), the selector is the attribute
  test it looks like, and finds an element exactly when the document has a
  script with that \<^verbatim>\<open>src\<close>. Any other \<^verbatim>\<open>src\<close> changes the selector itself: the
  browser may reject it (\<^verbatim>\<open>querySelector\<close> throws), or read it as a test for
  something else. What the browser does then is \<open>selectors\<close>, which is not
  constrained.
\<close>

definition plain :: "string \<Rightarrow> bool" where
  "plain u = list_all (\<lambda>c. c \<noteq> CHR 0x22 \<and> c \<noteq> CHR 0x5C \<and> 32 \<le> (of_char c :: nat)) u"

definition querySelector :: "loader \<Rightarrow> string \<Rightarrow> lookup" where
  "querySelector s u =
     (if plain u then (if u \<in> set (document s) then Found else NotFound)
      else selectors s u (document s))"

definition call_onLoad :: "nat option \<Rightarrow> loader \<Rightarrow> loader" where
  "call_onLoad cb s =
     s\<lparr>invoked := invoked s @ (case cb of None \<Rightarrow> [] | Some n \<Rightarrow> [OnLoad n])\<rparr>"

definition call_onError :: "nat option \<Rightarrow> loader \<Rightarrow> loader" where
  "call_onError cb s =
     s\<lparr>invoked := invoked s @ (case cb of None \<Rightarrow> [] | Some n \<Rightarrow> [OnError n])\<rparr>"

text \<open>\<^verbatim>\<open>resolve()\<close> and \<^verbatim>\<open>reject(...)\<close>: settling a promise that is already
  settled does nothing.\<close>

definition settle :: "settled \<Rightarrow> nat \<Rightarrow> loader \<Rightarrow> loader" where
  "settle v p s =
     (if p < length (promises s) \<and> promises s ! p = Own Pending
      then s\<lparr>promises := (promises s)[p := Own v]\<rparr> else s)"

definition add_loaded :: "string \<Rightarrow> loader \<Rightarrow> loader" where
  "add_loaded u s = s\<lparr>loadedScripts := List.insert u (loadedScripts s)\<rparr>"

text \<open>The executor of \<^verbatim>\<open>new Promise(...)\<close> in \<^verbatim>\<open>loadScript\<close>, run on the fresh
  pending promise \<open>p\<close>. An error thrown in an executor rejects the promise.\<close>

definition executor :: "scriptConfig \<Rightarrow> nat \<Rightarrow> loader \<Rightarrow> loader" where
  "executor config p s =
     (if \<not> hasWindow s then settle Rejected p s
      else
        (case querySelector s (sc_src config) of
           Throws \<Rightarrow> settle Rejected p s
         | Found \<Rightarrow>
             settle Fulfilled p (call_onLoad (sc_onLoad config) (add_loaded (sc_src config) s))
         | NotFound \<Rightarrow>
             s\<lparr>document := document s @ [sc_src config],
               appended := appended s @
                 [\<lparr>el_src = sc_src config,
                   el_async = (case sc_async config of None \<Rightarrow> True | Some b \<Rightarrow> b),
                   el_defer = (case sc_defer config of None \<Rightarrow> False | Some b \<Rightarrow> b),
                   el_promise = p,
                   el_onLoad = sc_onLoad config,
                   el_onError = sc_onError config\<rparr>]\<rparr>))"

text \<open>What an \<^verbatim>\<open>async\<close> function does with the promise \<open>p\<close> its body returns:
  it hands the caller a new promise, resolved with \<open>p\<close>.\<close>

definition async_return :: "nat \<Rightarrow> loader \<Rightarrow> nat \<times> loader" where
  "async_return p s = (length (promises s), s\<lparr>promises := promises s @ [Wrapper p]\<rparr>)"

definition loadScript :: "scriptConfig \<Rightarrow> loader \<Rightarrow> nat \<times> loader" where
  "loadScript config s =
     (case map_of (loadingPromises s) (sc_src config) of
        Some p \<Rightarrow> async_return p s
      | None \<Rightarrow>
          if sc_src config \<in> set (loadedScripts s)
          then async_return (length (promises s))
                 ((call_onLoad (sc_onLoad config) s)\<lparr>promises := promises s @ [Own Fulfilled]\<rparr>)
          else
            let p = length (promises s);
                s1 = executor config p (s\<lparr>promises := promises s @ [Own Pending]\<rparr>)
            in async_return p
                 (s1\<lparr>loadingPromises := assoc_set (sc_src config) p (loadingPromises s1)\<rparr>))"


definition isScriptLoaded :: "string \<Rightarrow> loader \<Rightarrow> bool" where
  "isScriptLoaded u s = (u \<in> set (loadedScripts s))"


definition clearCache :: "loader \<Rightarrow> loader" where
  "clearCache s = s\<lparr>loadedScripts := [], loadingPromises := []\<rparr>"

text \<open>The handlers \<^verbatim>\<open>script.onload\<close> and \<^verbatim>\<open>script.onerror\<close> of the \<open>k\<close>-th
  appended element. The browser delivers at most one of the two events, once,
  to each element.\<close>

definition script_onload :: "nat \<Rightarrow> loader \<Rightarrow> loader" where
  "script_onload k s =
     (if k < length (appended s) \<and> k \<notin> set (fired s)
      then let el = appended s ! k
           in settle Fulfilled (el_promise el)
                (call_onLoad (el_onLoad el) (add_loaded (el_src el) (s\<lparr>fired := k # fired s\<rparr>)))
      else s)"

definition script_onerror :: "nat \<Rightarrow> loader \<Rightarrow> loader" where
  "script_onerror k s =
     (if k < length (appended s) \<and> k \<notin> set (fired s)
      then let el = appended s ! k
           in settle Rejected (el_promise el)
                (call_onError (el_onError el) (s\<lparr>fired := k # fired s\<rparr>))
      else s)"

text \<open>Everything that can happen to the loader: a call of \<^verbatim>\<open>loadScript\<close>, an
  event of an appended element, a call of \<^verbatim>\<open>clearCache\<close>. \<open>run\<close> plays a
  sequence of these and collects, for each \<^verbatim>\<open>loadScript\<close> call, the identifier
  asked for and the promise returned.\<close>

datatype action = Load scriptConfig | ScriptLoaded nat | ScriptFailed nat | ClearCache



fun run :: "action list \<Rightarrow> loader \<Rightarrow> (string \<times> nat) list \<times> loader" where
  "run [] s = ([], s)"
| "run (Load c # as) s =
     (case loadScript c s of (p, s') \<Rightarrow>
        (case run as s' of (rs, s'') \<Rightarrow> ((sc_src c, p) # rs, s'')))"
| "run (ScriptLoaded k # as) s = run as (script_onload k s)"
| "run (ScriptFailed k # as) s = run as (script_onerror k s)"
| "run (ClearCache # as) s = run as (clearCache s)"

definition fetches :: "string \<Rightarrow> loader \<Rightarrow> nat" where
  "fetches u s = length (filter (\<lambda>el. el_src el = u) (appended s))"

subsection \<open>Invariants of the loader\<close>

text \<open>What holds of every state the loader reaches from
  \<open>initialLoader doc0 w css\<close>. \<open>wf_doc\<close> says where the document's scripts
  come from; \<open>wf_src\<close> and \<open>wf_prom\<close> relate the cache entries of one plain
  \<^verbatim>\<open>src\<close> to the document and to the promises; \<open>cached_all\<close> holds as long as
  \<^verbatim>\<open>clearCache\<close> is not called.\<close>

definition wf_doc :: "string list \<Rightarrow> loader \<Rightarrow> bool" where
  "wf_doc doc0 s \<longleftrightarrow>
     document s = doc0 @ map el_src (appended s) \<and>
     (\<not> hasWindow s \<longrightarrow> appended s = [])"








section \<open>Payloads (src/types.ts)\<close>

record analyticsEvent =
  ev_name :: string
  ev_properties :: "props option"
  ev_userId :: "string option"
  ev_timestamp :: "int option"

record analyticsUser =
  user_id :: string
  user_properties :: "props option"

record analyticsPageView =
  pv_url :: string
  pv_title :: "string option"
  pv_properties :: "props option"

text \<open>Spreading an absent object (\<^verbatim>\<open>...undefined\<close>) adds nothing.\<close>

definition orEmpty :: "props option \<Rightarrow> props" where
  "orEmpty v = (case v of None \<Rightarrow> [] | Some ps \<Rightarrow> ps)"

section \<open>The vendor backends, as the adapters see them\<close>

text \<open>
  The vendor libraries are opaque. A call of one is recorded by its name and
  arguments. The browser environment says, for each vendor, whether its global
  (\<^verbatim>\<open>window.mixpanel\<close>, \<^verbatim>\<open>window.gtag\<close>, \<^verbatim>\<open>window.LogRocket\<close>,
  \<^verbatim>\<open>window.amplitude\<close>) is there (\<open>Absent\<close> also stands for a missing
  \<^verbatim>\<open>window\<close>), and which calls of it raise.

  \<open>inherited\<close> is the one fact about the JavaScript engine the adapters depend
  on: an object literal inherits the members of \<^verbatim>\<open>Object.prototype\<close>
  (\<^verbatim>\<open>constructor\<close>, \<^verbatim>\<open>toString\<close>, ...), so indexing Mixpanel's table with
  such a name finds the inherited member; \<open>inherited k\<close> is that member coerced
  to a property key, and \<open>None\<close> for every other name.

  \<^verbatim>\<open>BaseProvider.log\<close> writes to the console only when
  \<^verbatim>\<open>process.env.NODE_ENV\<close> is \<^verbatim>\<open>'development'\<close>; \<open>logged\<close> records the calls
  of \<^verbatim>\<open>log\<close> themselves, in an environment that defines \<^verbatim>\<open>process\<close>.
\<close>

datatype kind = Mixpanel | GA4 | LogRocket | Amplitude

datatype arg = AStr string | AObj props | AUndefined | ADate

datatype call = Call string "arg list"

datatype backend = Absent | Present "call \<Rightarrow> bool"

record browser =
  vendor :: "kind \<Rightarrow> backend"
  inherited :: "string \<Rightarrow> string option"

type_synonym error = string

section \<open>BaseProvider and the four providers (src/providers)\<close>

record provider =
  kind :: kind
  enabled :: bool
  globalProperties :: props
  credential :: string
  debug :: bool
  options :: props
  calls :: "call list"
  logged :: "string list"

text \<open>The constructors. \<open>credential\<close> is the token, measurement id, app id or
  API key; \<open>debug\<close> is Mixpanel's \<^verbatim>\<open>debug\<close> and GA4's \<^verbatim>\<open>debugMode\<close>. Each
  constructor ends by starting \<^verbatim>\<open>this.initialize()\<close>, whose effect depends on
  the browser; see \<open>initializeProviders\<close>.\<close>

definition new_provider :: "kind \<Rightarrow> string \<Rightarrow> bool \<Rightarrow> props \<Rightarrow> provider" where
  "new_provider k cred dbg opts =
     \<lparr>kind = k, enabled = False, globalProperties = [], credential = cred, debug = dbg,
      options = opts, calls = [], logged = []\<rparr>"

definition MixpanelProvider :: "string \<Rightarrow> bool \<Rightarrow> props \<Rightarrow> provider" where
  "MixpanelProvider token dbg opts = new_provider Mixpanel token dbg opts"

definition GA4Provider :: "string \<Rightarrow> bool \<Rightarrow> props \<Rightarrow> provider" where
  "GA4Provider measurementId debugMode opts = new_provider GA4 measurementId debugMode opts"

definition LogRocketProvider :: "string \<Rightarrow> props \<Rightarrow> provider" where
  "LogRocketProvider appId opts = new_provider LogRocket appId False opts"

definition AmplitudeProvider :: "string \<Rightarrow> props \<Rightarrow> provider" where
  "AmplitudeProvider apiKey opts = new_provider Amplitude apiKey False opts"

fun provider_name :: "kind \<Rightarrow> string" where
  "provider_name Mixpanel = ''Mixpanel''"
| "provider_name GA4 = ''GA4''"
| "provider_name LogRocket = ''LogRocket''"
| "provider_name Amplitude = ''Amplitude''"

definition log :: "string \<Rightarrow> provider \<Rightarrow> provider" where
  "log message p = p\<lparr>logged := logged p @ [message]\<rparr>"

definition isEnabled :: "provider \<Rightarrow> bool" where
  "isEnabled p = enabled p"

definition base_enable :: "provider \<Rightarrow> provider" where
  "base_enable p = log ''Provider enabled'' (p\<lparr>enabled := True\<rparr>)"

definition base_disable :: "provider \<Rightarrow> provider" where
  "base_disable p = log ''Provider disabled'' (p\<lparr>enabled := False\<rparr>)"

definition setGlobalProperties :: "props \<Rightarrow> provider \<Rightarrow> provider" where
  "setGlobalProperties properties p =
     log ''Global properties updated''
       (p\<lparr>globalProperties := spread (globalProperties p) properties\<rparr>)"

text \<open>
  A \<^verbatim>\<open>try\<close> block of vendor calls: they are made in order until one raises.
  \<open>guarded\<close> is the shape every \<^verbatim>\<open>...Internal\<close> method has:
  \<^verbatim>\<open>if (typeof window !== 'undefined' && window.X) { try { calls; log(ok) } catch { log(err) } }\<close>.
\<close>

fun attempt :: "(call \<Rightarrow> bool) \<Rightarrow> call list \<Rightarrow> call list \<times> bool" where
  "attempt raises [] = ([], False)"
| "attempt raises (c # cs) =
     (if raises c then ([c], True)
      else (case attempt raises cs of (made, raised) \<Rightarrow> (c # made, raised)))"

definition guarded :: "backend \<Rightarrow> call list \<Rightarrow> string \<Rightarrow> string \<Rightarrow> provider \<Rightarrow> provider" where
  "guarded b cs ok err p =
     (case b of
        Absent \<Rightarrow> p
      | Present raises \<Rightarrow>
          (case attempt raises cs of
             (made, raised) \<Rightarrow> log (if raised then err else ok) (p\<lparr>calls := calls p @ made\<rparr>)))"

definition propsArg :: "props option \<Rightarrow> arg" where
  "propsArg v = (case v of None \<Rightarrow> AUndefined | Some ps \<Rightarrow> AObj ps)"

definition titleValue :: "analyticsPageView \<Rightarrow> jsval" where
  "titleValue pv = (case pv_title pv of None \<Rightarrow> JUndefined | Some t \<Rightarrow> JStr t)"

subsection \<open>MixpanelProvider.mapToMixpanelProperties\<close>

definition propertyMap :: "(string \<times> string) list" where
  "propertyMap =
     [(''email'', ''$email''), (''name'', ''$name''),
      (''firstName'', ''$first_name''), (''first_name'', ''$first_name''),
      (''lastName'', ''$last_name''), (''last_name'', ''$last_name''),
      (''phone'', ''$phone''), (''avatar'', ''$avatar''), (''created'', ''$created''),
      (''city'', ''$city''), (''region'', ''$region''), (''country'', ''$country''),
      (''timezone'', ''$timezone'')]"

text \<open>\<^verbatim>\<open>propertyMap[key] || key\<close>: the table's entry, else the inherited member
  under that name, else the key itself.\<close>

definition mappedKey :: "(string \<Rightarrow> string option) \<Rightarrow> string \<Rightarrow> string" where
  "mappedKey inh key =
     (case map_of propertyMap key of
        Some k \<Rightarrow> k
      | None \<Rightarrow> (case inh key of Some k \<Rightarrow> k | None \<Rightarrow> key))"

definition mapToMixpanelProperties :: "(string \<Rightarrow> string option) \<Rightarrow> props \<Rightarrow> props" where
  "mapToMixpanelProperties inh properties =
     fold (\<lambda>(key, value). assoc_set (mappedKey inh key) value) properties []"

subsection \<open>The vendor calls of each provider\<close>

fun eventCalls :: "kind \<Rightarrow> analyticsEvent \<Rightarrow> call list" where
  "eventCalls Mixpanel e = [Call ''mixpanel.track'' [AStr (ev_name e), propsArg (ev_properties e)]]"
| "eventCalls GA4 e =
     [Call ''gtag''
        [AStr ''event'', AStr (ev_name e),
         AObj (spread [(''event_category'', JStr ''custom''), (''event_label'', JStr (ev_name e))]
                 (orEmpty (ev_properties e)))]]"
| "eventCalls LogRocket e = [Call ''LogRocket.track'' [AStr (ev_name e), propsArg (ev_properties e)]]"
| "eventCalls Amplitude e =
     [Call ''amplitude.getInstance().logEvent'' [AStr (ev_name e), propsArg (ev_properties e)]]"

fun identifyCalls :: "(string \<Rightarrow> string option) \<Rightarrow> kind \<Rightarrow> string \<Rightarrow> analyticsUser \<Rightarrow> call list" where
  "identifyCalls inh Mixpanel cred u =
     Call ''mixpanel.identify'' [AStr (user_id u)] #
     (case user_properties u of
        None \<Rightarrow> []
      | Some ps \<Rightarrow> [Call ''mixpanel.people.set'' [AObj (mapToMixpanelProperties inh ps)]])"
| "identifyCalls inh GA4 cred u =
     Call ''gtag'' [AStr ''config'', AStr cred, AObj [(''user_id'', JStr (user_id u))]] #
     (case user_properties u of
        None \<Rightarrow> []
      | Some ps \<Rightarrow> [Call ''gtag'' [AStr ''set'', AStr ''user_properties'', AObj ps]])"
| "identifyCalls inh LogRocket cred u =
     [Call ''LogRocket.identify'' [AStr (user_id u), propsArg (user_properties u)]]"
| "identifyCalls inh Amplitude cred u =
     Call ''amplitude.getInstance().setUserId'' [AStr (user_id u)] #
     (case user_properties u of
        None \<Rightarrow> []
      | Some ps \<Rightarrow> [Call ''amplitude.getInstance().setUserProperties'' [AObj ps]])"

fun pageViewCalls :: "kind \<Rightarrow> string \<Rightarrow> analyticsPageView \<Rightarrow> call list" where
  "pageViewCalls Mixpanel cred pv =
     [Call ''mixpanel.track''
        [AStr ''Page View'',
         AObj (spread [(''url'', JStr (pv_url pv)), (''title'', titleValue pv)]
                 (orEmpty (pv_properties pv)))]]"
| "pageViewCalls GA4 cred pv =
     [Call ''gtag''
        [AStr ''config'', AStr cred,
         AObj (spread [(''page_title'', titleValue pv), (''page_location'', JStr (pv_url pv))]
                 (orEmpty (pv_properties pv)))]]"
| "pageViewCalls LogRocket cred pv =
     (case pv_properties pv of
        None \<Rightarrow> []
      | Some ps \<Rightarrow>
          [Call ''LogRocket.track''
             [AStr ''Page View'',
              AObj (spread [(''url'', JStr (pv_url pv)), (''title'', titleValue pv)] ps)]])"
| "pageViewCalls Amplitude cred pv =
     [Call ''amplitude.getInstance().logEvent''
        [AStr ''Page View'',
         AObj (spread [(''url'', JStr (pv_url pv)), (''title'', titleValue pv)]
                 (orEmpty (pv_properties pv)))]]"

definition trackEventInternal :: "browser \<Rightarrow> analyticsEvent \<Rightarrow> provider \<Rightarrow> provider" where
  "trackEventInternal env e p =
     guarded (vendor env (kind p)) (eventCalls (kind p) e)
       ''Event tracked successfully'' ''Error tracking event'' p"

definition identifyUserInternal :: "browser \<Rightarrow> analyticsUser \<Rightarrow> provider \<Rightarrow> provider" where
  "identifyUserInternal env u p =
     guarded (vendor env (kind p)) (identifyCalls (inherited env) (kind p) (credential p) u)
       ''User identified successfully'' ''Error identifying user'' p"

definition trackPageViewInternal :: "browser \<Rightarrow> analyticsPageView \<Rightarrow> provider \<Rightarrow> provider" where
  "trackPageViewInternal env pv p =
     guarded (vendor env (kind p)) (pageViewCalls (kind p) (credential p) pv)
       ''Page view tracked successfully'' ''Error tracking page view'' p"

subsection \<open>BaseProvider.trackEvent, identifyUser, trackPageView\<close>

definition trackEvent :: "browser \<Rightarrow> analyticsEvent \<Rightarrow> provider \<Rightarrow> provider" where
  "trackEvent env event p =
     (if \<not> enabled p then log ''Provider is disabled, skipping event'' p
      else
        let enrichedEvent =
              event\<lparr>ev_properties :=
                Some (spread (globalProperties p) (orEmpty (ev_properties event)))\<rparr>
        in trackEventInternal env enrichedEvent (log ''Tracking event'' p))"

definition identifyUser :: "browser \<Rightarrow> analyticsUser \<Rightarrow> provider \<Rightarrow> provider" where
  "identifyUser env user p =
     (if \<not> enabled p then log ''Provider is disabled, skipping user identification'' p
      else identifyUserInternal env user (log ''Identifying user'' p))"

definition trackPageView :: "browser \<Rightarrow> analyticsPageView \<Rightarrow> provider \<Rightarrow> provider" where
  "trackPageView env pageView p =
     (if \<not> enabled p then log ''Provider is disabled, skipping page view'' p
      else
        let enrichedPageView =
              pageView\<lparr>pv_properties :=
                Some (spread (globalProperties p) (orEmpty (pv_properties pageView)))\<rparr>
        in trackPageViewInternal env enrichedPageView (log ''Tracking page view'' p))"

subsection \<open>enable and disable\<close>

text \<open>Mixpanel's overrides call \<^verbatim>\<open>opt_in_tracking\<close> and \<^verbatim>\<open>opt_out_tracking\<close>
  outside any \<^verbatim>\<open>try\<close>: an error of the vendor call leaves the method. The other
  three only log.\<close>

definition unguarded :: "backend \<Rightarrow> call \<Rightarrow> provider \<Rightarrow> error option \<times> provider" where
  "unguarded b c p =
     (case b of
        Absent \<Rightarrow> (None, p)
      | Present raises \<Rightarrow>
          (if raises c then Some ''vendor call raised'' else None, p\<lparr>calls := calls p @ [c]\<rparr>))"

definition enable :: "browser \<Rightarrow> provider \<Rightarrow> error option \<times> provider" where
  "enable env p =
     (case kind p of
        Mixpanel \<Rightarrow> unguarded (vendor env Mixpanel) (Call ''mixpanel.opt_in_tracking'' []) (base_enable p)
      | k \<Rightarrow> (None, log (provider_name k @ '' tracking enabled'') (base_enable p)))"

definition disable :: "browser \<Rightarrow> provider \<Rightarrow> error option \<times> provider" where
  "disable env p =
     (case kind p of
        Mixpanel \<Rightarrow> unguarded (vendor env Mixpanel) (Call ''mixpanel.opt_out_tracking'' []) (base_disable p)
      | k \<Rightarrow> (None, log (provider_name k @ '' tracking disabled'') (base_disable p)))"

subsection \<open>Waiting for the vendor library: initializeGA4, initializeLogRocket, initializeAmplitude\<close>

text \<open>The configuration Mixpanel's \<^verbatim>\<open>init\<close> receives reads two options, each
  with a default when the option is \<^verbatim>\<open>undefined\<close>.\<close>

definition optionOr :: "props \<Rightarrow> string \<Rightarrow> jsval \<Rightarrow> jsval" where
  "optionOr opts k d =
     (case map_of opts k of None \<Rightarrow> d | Some v \<Rightarrow> (if v = JUndefined then d else v))"

fun initCalls :: "kind \<Rightarrow> provider \<Rightarrow> call list" where
  "initCalls Mixpanel p =
     [Call ''mixpanel.init''
        [AStr (credential p),
         AObj [(''debug'', JBool (debug p)), (''track_pageview'', JBool False),
               (''autocapture'', optionOr (options p) ''autocapture'' (JBool True)),
               (''record_sessions_percent'',
                  optionOr (options p) ''record_sessions_percent'' (JNum 100))]]]"
| "initCalls GA4 p =
     [Call ''gtag'' [AStr ''js'', ADate],
      Call ''gtag''
        [AStr ''config'', AStr (credential p),
         AObj [(''debug_mode'', JBool (debug p)), (''send_page_view'', JBool False)]]]"
| "initCalls LogRocket p = [Call ''LogRocket.init'' [AStr (credential p), AObj (options p)]]"
| "initCalls Amplitude p =
     [Call ''amplitude.getInstance().init'' [AStr (credential p), AUndefined, AObj (options p)]]"

text \<open>The branch taken when the vendor global is there:
  \<^verbatim>\<open>try { init(...); this.enable(); this.log(ok) } catch (error) { this.log(err) }\<close>.\<close>

definition initializeVendor :: "browser \<Rightarrow> (call \<Rightarrow> bool) \<Rightarrow> provider \<Rightarrow> provider" where
  "initializeVendor env raises p =
     (case attempt raises (initCalls (kind p) p) of
        (made, raised) \<Rightarrow>
          let p1 = p\<lparr>calls := calls p @ made\<rparr> in
          if raised then log (''Error initializing '' @ provider_name (kind p)) p1
          else
            (case enable env p1 of
               (Some e, p2) \<Rightarrow> log (''Error initializing '' @ provider_name (kind p)) p2
             | (None, p2) \<Rightarrow> log (provider_name (kind p) @ '' initialized successfully'') p2))"

text \<open>
  The closure \<^verbatim>\<open>checkGA4\<close> / \<^verbatim>\<open>checkLogRocket\<close> / \<^verbatim>\<open>checkAmplitude\<close> (the three
  differ in the vendor global, the \<^verbatim>\<open>init\<close> call and the name in the log text).
  \<open>world t\<close> is the browser at time \<open>t\<close>; \<^verbatim>\<open>setTimeout(..., 100)\<close> runs the next
  check 100 ms after this one (the nominal delay). The result lists the times at
  which the readiness test was evaluated, and the provider afterwards.
\<close>

function checkReady :: "(nat \<Rightarrow> browser) \<Rightarrow> nat \<Rightarrow> nat \<Rightarrow> provider \<Rightarrow> nat list \<times> provider" where
  "checkReady world now attempts p =
     (case vendor (world now) (kind p) of
        Present raises \<Rightarrow> ([now], initializeVendor (world now) raises p)
      | Absent \<Rightarrow>
          if attempts < 10
          then (case checkReady world (now + 100) (attempts + 1) p of
                  (ts, p1) \<Rightarrow> (now # ts, p1))
          else ([now],
                log (provider_name (kind p) @ '' failed to initialize after multiple attempts'') p))"
  by pat_completeness auto
termination
  by (relation "measure (\<lambda>(world, now, attempts, p). 10 - attempts)") auto

text \<open>\<^verbatim>\<open>initializeGA4()\<close> and its two siblings: the first check, with
  \<^verbatim>\<open>attempts = 0\<close>.\<close>

definition initializePolled :: "(nat \<Rightarrow> browser) \<Rightarrow> nat \<Rightarrow> provider \<Rightarrow> nat list \<times> provider" where
  "initializePolled world now p = checkReady world now 0 p"

text \<open>\<^verbatim>\<open>MixpanelProvider.initializeMixpanel\<close> tests once and does not retry.\<close>

definition initializeMixpanel :: "browser \<Rightarrow> provider \<Rightarrow> provider" where
  "initializeMixpanel env p =
     (case vendor env Mixpanel of
        Present raises \<Rightarrow> initializeVendor env raises p
      | Absent \<Rightarrow> log ''Mixpanel object not available for initialization'' p)"

text \<open>The objects among the arguments of a sequence of vendor calls: what the
  vendor is given as properties.\<close>

definition objects :: "call list \<Rightarrow> props list" where
  "objects cs =
     concat (map (\<lambda>c. case c of Call n args \<Rightarrow>
       concat (map (\<lambda>a. case a of AObj ps \<Rightarrow> [ps] | _ \<Rightarrow> []) args)) cs)"

section \<open>AnalyticsProxy (src/AnalyticsProxy.ts)\<close>

text \<open>
  The configuration of \<^verbatim>\<open>src/types.ts\<close>. A provider's sub-configuration has
  \<^verbatim>\<open>enabled\<close>, its credential (\<^verbatim>\<open>token\<close>, \<^verbatim>\<open>measurementId\<close>, \<^verbatim>\<open>appId\<close> or
  \<^verbatim>\<open>apiKey\<close>), a debug flag and options; a field that is absent is \<open>None\<close>.
  A \<^verbatim>\<open>Partial<AnalyticsProxyConfig>\<close> has each of the three top-level keys or
  not.
\<close>

record providerConfig =
  pc_enabled :: bool
  pc_credential :: "string option"
  pc_debug :: "bool option"
  pc_options :: "props option"

record providersConfig =
  mixpanel :: "providerConfig option"
  ga4 :: "providerConfig option"
  logrocket :: "providerConfig option"
  amplitude :: "providerConfig option"

record analyticsProxyConfig =
  cfg_providers :: providersConfig
  cfg_globalProperties :: "props option"
  cfg_enableDebug :: "bool option"

record partialConfig =
  new_providers :: "providersConfig option"
  new_globalProperties :: "props option"
  new_enableDebug :: "bool option"

text \<open>The \<^verbatim>\<open>providers\<close> field is an ES \<^verbatim>\<open>Map\<close> from the provider's name to
  the provider; \<open>console\<close> collects what the proxy itself writes with
  \<^verbatim>\<open>console.log\<close> and \<^verbatim>\<open>console.warn\<close>.\<close>

record analyticsProxy =
  providers :: "(string \<times> provider) list"
  config :: analyticsProxyConfig
  proxy_globalProperties :: props
  console :: "string list"

text \<open>The test \<^verbatim>\<open>c?.enabled && c.token\<close> of \<^verbatim>\<open>initializeProviders\<close>: the
  sub-configuration is there, \<^verbatim>\<open>enabled\<close> is true and the credential is a
  non-empty string.\<close>

definition truthy :: "string option \<Rightarrow> bool" where
  "truthy v = (case v of None \<Rightarrow> False | Some s \<Rightarrow> s \<noteq> [])"

definition wanted :: "providerConfig option \<Rightarrow> bool" where
  "wanted sub = (case sub of None \<Rightarrow> False | Some c \<Rightarrow> pc_enabled c \<and> truthy (pc_credential c))"

definition credentialOf :: "providerConfig option \<Rightarrow> string" where
  "credentialOf sub =
     (case sub of None \<Rightarrow> [] | Some c \<Rightarrow> (case pc_credential c of None \<Rightarrow> [] | Some s \<Rightarrow> s))"

definition debugOf :: "providerConfig option \<Rightarrow> bool" where
  "debugOf sub =
     (case sub of None \<Rightarrow> False | Some c \<Rightarrow> (case pc_debug c of None \<Rightarrow> False | Some b \<Rightarrow> b))"

definition optionsOf :: "providerConfig option \<Rightarrow> props" where
  "optionsOf sub = (case sub of None \<Rightarrow> [] | Some c \<Rightarrow> orEmpty (pc_options c))"

definition debugLog :: "string \<Rightarrow> analyticsProxy \<Rightarrow> analyticsProxy" where
  "debugLog message s =
     (if cfg_enableDebug (config s) = Some True then s\<lparr>console := console s @ [message]\<rparr> else s)"

text \<open>
  \<^verbatim>\<open>initializeProviders\<close>. Each provider's constructor starts its own
  \<^verbatim>\<open>initialize()\<close>, an \<^verbatim>\<open>async\<close> method that never raises into the constructor
  and whose effect on the new provider, up to its first suspension, depends on
  the browser (Mixpanel's runs to the end at once). \<open>init\<close> stands for that
  effect; everything proved below holds for every \<open>init\<close>.
\<close>

definition initializeProviders :: "(provider \<Rightarrow> provider) \<Rightarrow> analyticsProxy \<Rightarrow> analyticsProxy" where
  "initializeProviders init s =
     (let c = cfg_providers (config s);
          s1 = (if wanted (mixpanel c)
                then s\<lparr>providers := assoc_set ''mixpanel''
                        (init (MixpanelProvider (credentialOf (mixpanel c)) (debugOf (mixpanel c))
                                 (optionsOf (mixpanel c)))) (providers s)\<rparr>
                else s);
          s2 = (if wanted (ga4 c)
                then s1\<lparr>providers := assoc_set ''ga4''
                        (init (GA4Provider (credentialOf (ga4 c)) (debugOf (ga4 c))
                                 (optionsOf (ga4 c)))) (providers s1)\<rparr>
                else s1);
          s3 = (if wanted (logrocket c)
                then s2\<lparr>providers := assoc_set ''logrocket''
                        (init (LogRocketProvider (credentialOf (logrocket c))
                                 (optionsOf (logrocket c)))) (providers s2)\<rparr>
                else s2);
          s4 = (if wanted (amplitude c)
                then s3\<lparr>providers := assoc_set ''amplitude''
                        (init (AmplitudeProvider (credentialOf (amplitude c))
                                 (optionsOf (amplitude c)))) (providers s3)\<rparr>
                else s3)
      in debugLog ''AnalyticsProxy initialized with providers:'' s4)"

text \<open>\<^verbatim>\<open>setGlobalProperties\<close>: no provider's \<^verbatim>\<open>setGlobalProperties\<close> raises, so
  the \<^verbatim>\<open>forEach\<close> visits them all.\<close>

definition proxy_setGlobalProperties :: "props \<Rightarrow> analyticsProxy \<Rightarrow> analyticsProxy" where
  "proxy_setGlobalProperties properties s =
     s\<lparr>proxy_globalProperties := spread (proxy_globalProperties s) properties,
       providers := map (\<lambda>(n, p). (n, setGlobalProperties properties p)) (providers s)\<rparr>"

definition AnalyticsProxy :: "(provider \<Rightarrow> provider) \<Rightarrow> analyticsProxyConfig \<Rightarrow> analyticsProxy" where
  "AnalyticsProxy init cfg =
     proxy_setGlobalProperties (orEmpty (cfg_globalProperties cfg))
       (initializeProviders init
          \<lparr>providers = [], config = cfg, proxy_globalProperties = [], console = []\<rparr>)"

text \<open>
  \<^verbatim>\<open>this.providers.forEach((provider) => { if (provider.isEnabled()) { provider.m(x); } })\<close>,
  the body of \<^verbatim>\<open>trackEvent\<close>, \<^verbatim>\<open>identifyUser\<close> and \<^verbatim>\<open>trackPageView\<close>. The
  proxy is written against the interface \<^verbatim>\<open>IAnalyticsProvider\<close>; \<open>m\<close> is the
  method called, which returns the provider afterwards and the error it raised,
  if any. There is no \<^verbatim>\<open>try\<close> around the call, so an error ends the loop and
  leaves the proxy's method. The result is that error, the names of the
  providers whose method was called, in order, and the providers afterwards.
\<close>

fun fanOut :: "(provider \<Rightarrow> error option \<times> provider) \<Rightarrow> (string \<times> provider) list \<Rightarrow>
    error option \<times> string list \<times> (string \<times> provider) list" where
  "fanOut m [] = (None, [], [])"
| "fanOut m ((n, p) # ps) =
     (if isEnabled p then
        (case m p of
           (Some e, p') \<Rightarrow> (Some e, [n], (n, p') # ps)
         | (None, p') \<Rightarrow>
             (case fanOut m ps of (r, called, ps') \<Rightarrow> (r, n # called, (n, p') # ps')))
      else (case fanOut m ps of (r, called, ps') \<Rightarrow> (r, called, (n, p) # ps')))"

definition dispatch :: "(provider \<Rightarrow> error option \<times> provider) \<Rightarrow> analyticsProxy \<Rightarrow>
    error option \<times> string list \<times> analyticsProxy" where
  "dispatch m s =
     (case fanOut m (providers s) of (r, called, ps') \<Rightarrow> (r, called, s\<lparr>providers := ps'\<rparr>))"

text \<open>What the fan-out does to providers none of whose invocations raises.\<close>

definition invokedAll :: "(provider \<Rightarrow> error option \<times> provider) \<Rightarrow> (string \<times> provider) list \<Rightarrow>
    (string \<times> provider) list" where
  "invokedAll m ps = map (\<lambda>(n, p). (n, if isEnabled p then snd (m p) else p)) ps"

definition enabledNames :: "(string \<times> provider) list \<Rightarrow> string list" where
  "enabledNames ps = map fst (filter (\<lambda>(n, p). isEnabled p) ps)"

text \<open>With the providers of this repository the method is \<^verbatim>\<open>BaseProvider\<close>'s,
  which catches what the vendor call raises.\<close>

definition proxy_trackEvent :: "browser \<Rightarrow> analyticsEvent \<Rightarrow> analyticsProxy \<Rightarrow>
    error option \<times> string list \<times> analyticsProxy" where
  "proxy_trackEvent env event s = dispatch (\<lambda>p. (None, trackEvent env event p)) s"

definition proxy_identifyUser :: "browser \<Rightarrow> analyticsUser \<Rightarrow> analyticsProxy \<Rightarrow>
    error option \<times> string list \<times> analyticsProxy" where
  "proxy_identifyUser env user s = dispatch (\<lambda>p. (None, identifyUser env user p)) s"

definition proxy_trackPageView :: "browser \<Rightarrow> analyticsPageView \<Rightarrow> analyticsProxy \<Rightarrow>
    error option \<times> string list \<times> analyticsProxy" where
  "proxy_trackPageView env pageView s = dispatch (\<lambda>p. (None, trackPageView env pageView p)) s"

text \<open>An implementation of the interface whose method raises for one kind of
  provider, and behaves as \<open>m\<close> for the others.\<close>

definition raisingFor :: "kind \<Rightarrow> (provider \<Rightarrow> error option \<times> provider) \<Rightarrow>
    provider \<Rightarrow> error option \<times> provider" where
  "raisingFor k m p = (if kind p = k then (Some ''Provider error'', p) else m p)"

text \<open>\<^verbatim>\<open>enableProvider\<close> and \<^verbatim>\<open>disableProvider\<close>. The provider found is changed
  in place.\<close>

definition enableProvider :: "browser \<Rightarrow> string \<Rightarrow> analyticsProxy \<Rightarrow> error option \<times> analyticsProxy" where
  "enableProvider env providerName s =
     (case map_of (providers s) providerName of
        Some p \<Rightarrow>
          (case enable env p of
             (Some e, p') \<Rightarrow> (Some e, s\<lparr>providers := assoc_set providerName p' (providers s)\<rparr>)
           | (None, p') \<Rightarrow>
               (None, debugLog (''Provider '' @ providerName @ '' enabled'')
                        (s\<lparr>providers := assoc_set providerName p' (providers s)\<rparr>)))
      | None \<Rightarrow>
          (None, s\<lparr>console := console s @ [''Provider '' @ providerName @ '' not found'']\<rparr>))"

definition disableProvider :: "browser \<Rightarrow> string \<Rightarrow> analyticsProxy \<Rightarrow> error option \<times> analyticsProxy" where
  "disableProvider env providerName s =
     (case map_of (providers s) providerName of
        Some p \<Rightarrow>
          (case disable env p of
             (Some e, p') \<Rightarrow> (Some e, s\<lparr>providers := assoc_set providerName p' (providers s)\<rparr>)
           | (None, p') \<Rightarrow>
               (None, debugLog (''Provider '' @ providerName @ '' disabled'')
                        (s\<lparr>providers := assoc_set providerName p' (providers s)\<rparr>)))
      | None \<Rightarrow>
          (None, s\<lparr>console := console s @ [''Provider '' @ providerName @ '' not found'']\<rparr>))"


definition getProviderStatus :: "analyticsProxy \<Rightarrow> (string \<times> bool) list" where
  "getProviderStatus s = fold (\<lambda>(n, p). assoc_set n (isEnabled p)) (providers s) []"

definition getProvider :: "string \<Rightarrow> analyticsProxy \<Rightarrow> provider option" where
  "getProvider providerName s = map_of (providers s) providerName"

definition isProviderEnabled :: "string \<Rightarrow> analyticsProxy \<Rightarrow> bool" where
  "isProviderEnabled providerName s =
     (case map_of (providers s) providerName of Some p \<Rightarrow> isEnabled p | None \<Rightarrow> False)"

definition getAvailableProviders :: "analyticsProxy \<Rightarrow> string list" where
  "getAvailableProviders s = map fst (providers s)"

definition getConfig :: "analyticsProxy \<Rightarrow> analyticsProxyConfig" where
  "getConfig s = config s"

text \<open>\<^verbatim>\<open>{ ...this.config, ...newConfig }\<close>: each top-level key the partial
  configuration has replaces the current one whole.\<close>

definition mergeConfig :: "analyticsProxyConfig \<Rightarrow> partialConfig \<Rightarrow> analyticsProxyConfig" where
  "mergeConfig c newConfig =
     \<lparr>cfg_providers = (case new_providers newConfig of None \<Rightarrow> cfg_providers c | Some v \<Rightarrow> v),
      cfg_globalProperties =
        (case new_globalProperties newConfig of None \<Rightarrow> cfg_globalProperties c | Some v \<Rightarrow> Some v),
      cfg_enableDebug =
        (case new_enableDebug newConfig of None \<Rightarrow> cfg_enableDebug c | Some v \<Rightarrow> Some v)\<rparr>"

definition updateConfig :: "(provider \<Rightarrow> provider) \<Rightarrow> partialConfig \<Rightarrow> analyticsProxy \<Rightarrow> analyticsProxy" where
  "updateConfig init newConfig s =
     (let s1 = s\<lparr>config := mergeConfig (config s) newConfig\<rparr>;
          s2 = (case new_globalProperties newConfig of
                  Some g \<Rightarrow> proxy_setGlobalProperties g s1
                | None \<Rightarrow> s1);
          s3 = (case new_providers newConfig of
                  Some c \<Rightarrow> initializeProviders init (s2\<lparr>providers := []\<rparr>)
                | None \<Rightarrow> s2)
      in debugLog ''AnalyticsProxy configuration updated'' s3)"

text \<open>What \<open>initializeProviders\<close> registers in an empty map.\<close>

definition built :: "(provider \<Rightarrow> provider) \<Rightarrow> providersConfig \<Rightarrow> (string \<times> provider) list" where
  "built init c =
     (if wanted (mixpanel c)
      then [(''mixpanel'', init (MixpanelProvider (credentialOf (mixpanel c)) (debugOf (mixpanel c))
                                  (optionsOf (mixpanel c))))] else []) @
     (if wanted (ga4 c)
      then [(''ga4'', init (GA4Provider (credentialOf (ga4 c)) (debugOf (ga4 c))
                             (optionsOf (ga4 c))))] else []) @
     (if wanted (logrocket c)
      then [(''logrocket'', init (LogRocketProvider (credentialOf (logrocket c))
                                   (optionsOf (logrocket c))))] else []) @
     (if wanted (amplitude c)
      then [(''amplitude'', init (AmplitudeProvider (credentialOf (amplitude c))
                                   (optionsOf (amplitude c))))] else [])"

subsection \<open>The specification's vocabulary\<close>

text \<open>The four destinations in the order in which they are declared
  (\<^verbatim>\<open>ProviderName\<close>, and the order of \<^verbatim>\<open>initializeProviders\<close>), and the
  specification's notion of an eligible destination: \<^verbatim>\<open>enabled == true\<close> and
  the credential present and non-empty.\<close>

definition declared :: "string list" where
  "declared = [''mixpanel'', ''ga4'', ''logrocket'', ''amplitude'']"

definition subConfig :: "providersConfig \<Rightarrow> string \<Rightarrow> providerConfig option" where
  "subConfig c n =
     (if n = ''mixpanel'' then mixpanel c
      else if n = ''ga4'' then ga4 c
      else if n = ''logrocket'' then logrocket c
      else if n = ''amplitude'' then amplitude c
      else None)"

definition eligible :: "providersConfig \<Rightarrow> string \<Rightarrow> bool" where
  "eligible c n =
     (case subConfig c n of
        None \<Rightarrow> False
      | Some d \<Rightarrow>
          pc_enabled d = True \<and>
          (case pc_credential d of None \<Rightarrow> False | Some cred \<Rightarrow> cred \<noteq> []))"

text \<open>Configurations and an environment for the examples.\<close>

definition on :: "string \<Rightarrow> providerConfig option" where
  "on cred = Some \<lparr>pc_enabled = True, pc_credential = Some cred, pc_debug = None, pc_options = None\<rparr>"

definition off :: "string option \<Rightarrow> providerConfig option" where
  "off cred = Some \<lparr>pc_enabled = False, pc_credential = cred, pc_debug = None, pc_options = None\<rparr>"

definition configOf :: "providersConfig \<Rightarrow> analyticsProxyConfig" where
  "configOf c = \<lparr>cfg_providers = c, cfg_globalProperties = None, cfg_enableDebug = None\<rparr>"

definition onlyProviders :: "providersConfig \<Rightarrow> partialConfig" where
  "onlyProviders c = \<lparr>new_providers = Some c, new_globalProperties = None, new_enableDebug = None\<rparr>"

definition allPresent :: browser where
  "allPresent = \<lparr>vendor = (\<lambda>k. Present (\<lambda>c. False)), inherited = (\<lambda>k. None)\<rparr>"

definition allAbsent :: browser where
  "allAbsent = \<lparr>vendor = (\<lambda>k. Absent), inherited = (\<lambda>k. None)\<rparr>"

definition demoEvent :: analyticsEvent where
  "demoEvent = \<lparr>ev_name = ''x'', ev_properties = Some [(''a'', JNum 2)], ev_userId = None,
                 ev_timestamp = None\<rparr>"

definition demoUser :: analyticsUser where
  "demoUser = \<lparr>user_id = ''u1'', user_properties = Some [(''b'', JNum 2)]\<rparr>"

definition demoPageView :: analyticsPageView where
  "demoPageView = \<lparr>pv_url = ''/test-page'', pv_title = Some ''Test Page'',
                    pv_properties = Some [(''referrer'', JStr ''test.com'')]\<rparr>"


definition demoProxy :: analyticsProxy where
  "demoProxy =
     AnalyticsProxy base_enable
       (configOf \<lparr>mixpanel = on ''test-token'', ga4 = on ''G-TEST123'', logrocket = None,
                  amplitude = None\<rparr>)"

section \<open>Facts about objects and ordered maps\<close>

lemma map_of_assoc_set: "map_of (assoc_set k v xs) = (map_of xs)(k \<mapsto> v)"
  by (induction xs) auto


lemma assoc_set_fresh: "k \<notin> fst ` set xs \<Longrightarrow> assoc_set k v xs = xs @ [(k, v)]"
  by (induction xs) auto

lemma fold_assoc_set_fresh:
  "distinct (map (f \<circ> fst) ys) \<Longrightarrow> (f \<circ> fst) ` set ys \<inter> fst ` set acc = {} \<Longrightarrow>
   fold (\<lambda>(k, v). assoc_set (f k) (g v)) ys acc = acc @ map (\<lambda>(k, v). (f k, g v)) ys"
proof (induction ys arbitrary: acc)
  case Nil
  show ?case by simp
next
  case (Cons y ys)
  obtain k v where y: "y = (k, v)" by (cases y)
  have fresh: "f k \<notin> fst ` set acc" using Cons.prems(2) y by auto
  have "fold (\<lambda>(k, v). assoc_set (f k) (g v)) ys (acc @ [(f k, g v)]) =
          (acc @ [(f k, g v)]) @ map (\<lambda>(k, v). (f k, g v)) ys"
    using Cons.prems y by (intro Cons.IH) (auto simp add: image_iff)
  then show ?case using y fresh by (simp add: assoc_set_fresh)
qed

lemma map_of_fold_assoc_set:
  "map_of (fold (\<lambda>(k, v). assoc_set (f k) (g v)) ys acc) =
     map_of acc ++ map_of (rev (map (\<lambda>(k, v). (f k, g v)) ys))"
proof (induction ys arbitrary: acc)
  case Nil
  show ?case by simp
next
  case (Cons y ys)
  obtain k v where y: "y = (k, v)" by (cases y)
  show ?case
    by (simp add: y Cons.IH map_of_assoc_set) (auto simp add: map_add_def fun_eq_iff split: option.splits)
qed

lemma map_of_spread: "map_of (spread a b) = map_of a ++ map_of (rev b)"
  using map_of_fold_assoc_set [of "\<lambda>k. k" "\<lambda>v. v" b a] by (simp add: spread_def)

lemma map_of_rev_distinct: "distinct (map fst xs) \<Longrightarrow> map_of (rev xs) = map_of xs"
proof (induction xs)
  case Nil
  show ?case by simp
next
  case (Cons x xs)
  obtain k v where x: "x = (k, v)" by (cases x)
  have "map_of xs k = None" using Cons.prems x by (simp add: map_of_eq_None_iff)
  then show ?case using Cons x
    by (auto simp add: map_add_def fun_eq_iff split: option.splits)
qed

lemma spread_precedence:
  "distinct (map fst b) \<Longrightarrow>
   map_of (spread a b) k = (case map_of b k of Some v \<Rightarrow> Some v | None \<Rightarrow> map_of a k)"
  by (simp add: map_of_spread map_of_rev_distinct map_add_def)

lemma map_of_map_values:
  "map_of (map (\<lambda>(k, v). (k, g v)) xs) k = map_option g (map_of xs k)"
  by (induction xs) auto

section \<open>The loader keeps its invariants\<close>


lemma querySelector_promises [simp]:
  "querySelector (s\<lparr>promises := ps\<rparr>) u = querySelector s u"
  by (simp add: querySelector_def)

lemma loadScript_cached:
  "map_of (loadingPromises s) (sc_src c) = Some p \<Longrightarrow>
   loadScript c s = (length (promises s), s\<lparr>promises := promises s @ [Wrapper p]\<rparr>)"
  by (simp add: loadScript_def async_return_def)

lemma loadScript_loaded:
  "map_of (loadingPromises s) (sc_src c) = None \<Longrightarrow> sc_src c \<in> set (loadedScripts s) \<Longrightarrow>
   loadScript c s =
     (Suc (length (promises s)),
      s\<lparr>invoked := invoked s @ (case sc_onLoad c of None \<Rightarrow> [] | Some n \<Rightarrow> [OnLoad n]),
        promises := promises s @ [Own Fulfilled, Wrapper (length (promises s))]\<rparr>)"
  by (simp add: loadScript_def call_onLoad_def async_return_def)

lemma loadScript_nowindow:
  "map_of (loadingPromises s) (sc_src c) = None \<Longrightarrow> sc_src c \<notin> set (loadedScripts s) \<Longrightarrow>
   \<not> hasWindow s \<Longrightarrow>
   loadScript c s =
     (Suc (length (promises s)),
      s\<lparr>promises := promises s @ [Own Rejected, Wrapper (length (promises s))],
        loadingPromises := assoc_set (sc_src c) (length (promises s)) (loadingPromises s)\<rparr>)"
  by (simp add: loadScript_def executor_def settle_def Let_def async_return_def)

lemma loadScript_throws:
  "map_of (loadingPromises s) (sc_src c) = None \<Longrightarrow> sc_src c \<notin> set (loadedScripts s) \<Longrightarrow>
   hasWindow s \<Longrightarrow> querySelector s (sc_src c) = Throws \<Longrightarrow>
   loadScript c s =
     (Suc (length (promises s)),
      s\<lparr>promises := promises s @ [Own Rejected, Wrapper (length (promises s))],
        loadingPromises := assoc_set (sc_src c) (length (promises s)) (loadingPromises s)\<rparr>)"
  by (simp add: loadScript_def executor_def settle_def Let_def async_return_def)

lemma loadScript_existing:
  "map_of (loadingPromises s) (sc_src c) = None \<Longrightarrow> sc_src c \<notin> set (loadedScripts s) \<Longrightarrow>
   hasWindow s \<Longrightarrow> querySelector s (sc_src c) = Found \<Longrightarrow>
   loadScript c s =
     (Suc (length (promises s)),
      s\<lparr>loadedScripts := List.insert (sc_src c) (loadedScripts s),
        invoked := invoked s @ (case sc_onLoad c of None \<Rightarrow> [] | Some n \<Rightarrow> [OnLoad n]),
        promises := promises s @ [Own Fulfilled, Wrapper (length (promises s))],
        loadingPromises := assoc_set (sc_src c) (length (promises s)) (loadingPromises s)\<rparr>)"
  by (simp add: loadScript_def executor_def settle_def Let_def call_onLoad_def add_loaded_def
        async_return_def)

lemma loadScript_append:
  "map_of (loadingPromises s) (sc_src c) = None \<Longrightarrow> sc_src c \<notin> set (loadedScripts s) \<Longrightarrow>
   hasWindow s \<Longrightarrow> querySelector s (sc_src c) = NotFound \<Longrightarrow>
   loadScript c s =
     (Suc (length (promises s)),
      s\<lparr>promises := promises s @ [Own Pending, Wrapper (length (promises s))],
        document := document s @ [sc_src c],
        appended := appended s @
          [\<lparr>el_src = sc_src c,
            el_async = (case sc_async c of None \<Rightarrow> True | Some b \<Rightarrow> b),
            el_defer = (case sc_defer c of None \<Rightarrow> False | Some b \<Rightarrow> b),
            el_promise = length (promises s),
            el_onLoad = sc_onLoad c,
            el_onError = sc_onError c\<rparr>],
        loadingPromises := assoc_set (sc_src c) (length (promises s)) (loadingPromises s)\<rparr>)"
  by (simp add: loadScript_def executor_def settle_def Let_def async_return_def)

lemmas loadScript_shape =
  loadScript_cached loadScript_loaded loadScript_nowindow loadScript_throws
  loadScript_existing loadScript_append


lemma loadScript_shapes:
  obtains
    (cached) p where "map_of (loadingPromises s) (sc_src c) = Some p"
  | (loaded) "map_of (loadingPromises s) (sc_src c) = None" "sc_src c \<in> set (loadedScripts s)"
  | (nowindow) "map_of (loadingPromises s) (sc_src c) = None" "sc_src c \<notin> set (loadedScripts s)"
      "\<not> hasWindow s"
  | (throws) "map_of (loadingPromises s) (sc_src c) = None" "sc_src c \<notin> set (loadedScripts s)"
      "hasWindow s" "querySelector s (sc_src c) = Throws"
  | (existing) "map_of (loadingPromises s) (sc_src c) = None" "sc_src c \<notin> set (loadedScripts s)"
      "hasWindow s" "querySelector s (sc_src c) = Found"
  | (append) "map_of (loadingPromises s) (sc_src c) = None" "sc_src c \<notin> set (loadedScripts s)"
      "hasWindow s" "querySelector s (sc_src c) = NotFound"
  by (cases "map_of (loadingPromises s) (sc_src c)"; cases "querySelector s (sc_src c)") auto


subsection \<open>Where the document's scripts come from\<close>


lemma wf_doc_loadScript:
  assumes "wf_doc doc0 s"
  shows "wf_doc doc0 (snd (loadScript c s))"
  by (cases rule: loadScript_shapes [of s c])
     (use assms in \<open>auto simp add: loadScript_shape wf_doc_def\<close>)

lemma settle_fields [simp]:
  "loadedScripts (settle v p s) = loadedScripts s"
  "loadingPromises (settle v p s) = loadingPromises s"
  "document (settle v p s) = document s"
  "appended (settle v p s) = appended s"
  "fired (settle v p s) = fired s"
  "invoked (settle v p s) = invoked s"
  "hasWindow (settle v p s) = hasWindow s"
  "selectors (settle v p s) = selectors s"
  "length (promises (settle v p s)) = length (promises s)"
  by (simp_all add: settle_def)


lemma script_onload_fields [simp]:
  "loadingPromises (script_onload k s) = loadingPromises s"
  "document (script_onload k s) = document s"
  "appended (script_onload k s) = appended s"
  "hasWindow (script_onload k s) = hasWindow s"
  "length (promises (script_onload k s)) = length (promises s)"
  by (simp_all add: script_onload_def Let_def call_onLoad_def add_loaded_def)

lemma script_onerror_fields [simp]:
  "loadedScripts (script_onerror k s) = loadedScripts s"
  "loadingPromises (script_onerror k s) = loadingPromises s"
  "document (script_onerror k s) = document s"
  "appended (script_onerror k s) = appended s"
  "hasWindow (script_onerror k s) = hasWindow s"
  "length (promises (script_onerror k s)) = length (promises s)"
  by (simp_all add: script_onerror_def Let_def call_onError_def)


lemma clearCache_fields [simp]:
  "loadedScripts (clearCache s) = []"
  "loadingPromises (clearCache s) = []"
  "document (clearCache s) = document s"
  "appended (clearCache s) = appended s"
  "fired (clearCache s) = fired s"
  "promises (clearCache s) = promises s"
  "hasWindow (clearCache s) = hasWindow s"
  by (simp_all add: clearCache_def)

lemma fetches_event [simp]:
  "fetches u (script_onload k s) = fetches u s"
  "fetches u (script_onerror k s) = fetches u s"
  "fetches u (clearCache s) = fetches u s"
  by (simp_all add: fetches_def)

lemma wf_doc_script_onload: "wf_doc doc0 s \<Longrightarrow> wf_doc doc0 (script_onload k s)"
  by (auto simp add: wf_doc_def)

lemma wf_doc_script_onerror: "wf_doc doc0 s \<Longrightarrow> wf_doc doc0 (script_onerror k s)"
  by (auto simp add: wf_doc_def)

lemma wf_doc_clearCache: "wf_doc doc0 s \<Longrightarrow> wf_doc doc0 (clearCache s)"
  by (auto simp add: wf_doc_def)

lemma hasWindow_loadScript [simp]: "hasWindow (snd (loadScript c s)) = hasWindow s"
  by (cases rule: loadScript_shapes [of s c]) (simp_all add: loadScript_shape)

lemma hasWindow_run [simp]: "hasWindow (snd (run as s)) = hasWindow s"
proof (induction as s rule: run.induct)
  case (2 c as s)
  from "2.IH" [of "fst (loadScript c s)" "snd (loadScript c s)"] show ?case
    by (simp add: split_beta)
qed simp_all

subsection \<open>One element for each plain \<^verbatim>\<open>src\<close>\<close>











lemma wf_doc_run: "wf_doc doc0 s \<Longrightarrow> wf_doc doc0 (snd (run as s))"
proof (induction as s rule: run.induct)
  case (2 c as s)
  from "2.prems" have "wf_doc doc0 (snd (loadScript c s))" by (rule wf_doc_loadScript)
  with "2.IH" [of "fst (loadScript c s)" "snd (loadScript c s)"] show ?case
    by (simp add: split_beta)
qed (simp_all add: wf_doc_script_onload wf_doc_script_onerror wf_doc_clearCache)

subsection \<open>The promise a cache entry holds\<close>














subsection \<open>One call without a cache entry\<close>




subsection \<open>The returned promises\<close>



















section \<open>Facts about the proxy\<close>

lemma wanted_eligible: "wanted (subConfig c n) = eligible c n"
  by (simp add: wanted_def eligible_def truthy_def split: option.splits)

lemma debugLog_fields [simp]:
  "providers (debugLog m s) = providers s"
  "config (debugLog m s) = config s"
  "proxy_globalProperties (debugLog m s) = proxy_globalProperties s"
  by (simp_all add: debugLog_def)

lemma proxy_setGlobalProperties_fields [simp]:
  "config (proxy_setGlobalProperties g s) = config s"
  "console (proxy_setGlobalProperties g s) = console s"
  "map fst (providers (proxy_setGlobalProperties g s)) = map fst (providers s)"
  by (simp_all add: proxy_setGlobalProperties_def split_beta)

lemma initializeProviders_fields [simp]:
  "config (initializeProviders init s) = config s"
  "proxy_globalProperties (initializeProviders init s) = proxy_globalProperties s"
  by (simp_all add: initializeProviders_def Let_def)

lemma providers_initializeProviders:
  "providers s = [] \<Longrightarrow> providers (initializeProviders init s) = built init (cfg_providers (config s))"
  by (simp add: initializeProviders_def built_def Let_def)

lemma names_built: "map fst (built init c) = filter (eligible c) declared"
  by (simp add: built_def declared_def wanted_eligible [symmetric] subConfig_def)

lemma distinct_declared: "distinct declared"
  by (simp add: declared_def)


lemmas proxy_eval =
  AnalyticsProxy_def initializeProviders_def proxy_setGlobalProperties_def debugLog_def
  wanted_def truthy_def credentialOf_def debugOf_def optionsOf_def orEmpty_def
  MixpanelProvider_def GA4Provider_def LogRocketProvider_def AmplitudeProvider_def
  new_provider_def setGlobalProperties_def log_def spread_def
  getAvailableProviders_def isProviderEnabled_def getProviderStatus_def isEnabled_def
  updateConfig_def mergeConfig_def on_def off_def configOf_def onlyProviders_def
  eligible_def subConfig_def declared_def Let_def

lemma status_distinct:
  "distinct (map fst ps) \<Longrightarrow>
   fold (\<lambda>(n, p). assoc_set n (isEnabled p)) ps [] = map (\<lambda>(n, p). (n, isEnabled p)) ps"
  using fold_assoc_set_fresh [of "\<lambda>k. k" ps "[]" isEnabled] by (simp add: comp_def)

lemma providers_initializeProviders_fresh:
  "providers (initializeProviders init (s\<lparr>providers := []\<rparr>)) = built init (cfg_providers (config s))"
  using providers_initializeProviders [of "s\<lparr>providers := []\<rparr>" init] by simp

section \<open>Facts about the providers and the fan-out\<close>

lemma log_fields [simp]:
  "kind (log m p) = kind p"
  "enabled (log m p) = enabled p"
  "globalProperties (log m p) = globalProperties p"
  "credential (log m p) = credential p"
  "calls (log m p) = calls p"
  "logged (log m p) = logged p @ [m]"
  by (simp_all add: log_def)

lemma guarded_fields [simp]:
  "kind (guarded b cs ok err p) = kind p"
  "enabled (guarded b cs ok err p) = enabled p"
  "globalProperties (guarded b cs ok err p) = globalProperties p"
  by (simp_all add: guarded_def split: backend.splits prod.splits)

lemma calls_guarded:
  "calls (guarded b cs ok err p) =
     calls p @ (case b of Absent \<Rightarrow> [] | Present raises \<Rightarrow> fst (attempt raises cs))"
  by (simp add: guarded_def split: backend.splits prod.splits)






lemma map_of_mapToMixpanelProperties:
  "map_of (mapToMixpanelProperties inh properties) =
     map_of (rev (map (\<lambda>(key, value). (mappedKey inh key, value)) properties))"
  using map_of_fold_assoc_set [of "mappedKey inh" "\<lambda>v. v" properties "[]"]
  by (simp add: mapToMixpanelProperties_def)

lemma mapToMixpanelProperties_distinct:
  "distinct (map (mappedKey inh \<circ> fst) properties) \<Longrightarrow>
   mapToMixpanelProperties inh properties =
     map (\<lambda>(key, value). (mappedKey inh key, value)) properties"
  using fold_assoc_set_fresh [of "mappedKey inh" properties "[]" "\<lambda>v. v"]
  by (simp add: mapToMixpanelProperties_def)

lemma identify_forwards_unchanged:
  "k \<noteq> Mixpanel \<Longrightarrow> user_properties user = Some ps \<Longrightarrow>
   ps \<in> set (objects (identifyCalls inh k cred user))"
  by (cases k) (simp_all add: objects_def propsArg_def)

lemma fanOut_no_error:
  "\<forall>(n, p) \<in> set ps. isEnabled p \<longrightarrow> fst (m p) = None \<Longrightarrow>
   fanOut m ps = (None, enabledNames ps, invokedAll m ps)"
proof (induction ps)
  case Nil
  show ?case by (simp add: enabledNames_def invokedAll_def)
next
  case (Cons x ps)
  obtain n p where x: "x = (n, p)" by (cases x)
  have ih: "fanOut m ps = (None, enabledNames ps, invokedAll m ps)"
    using Cons by simp
  show ?case
  proof (cases "isEnabled p")
    case True
    then have "fst (m p) = None" using Cons.prems x by simp
    then obtain p' where "m p = (None, p')" by (cases "m p") simp
    then show ?thesis using True x ih by (simp add: enabledNames_def invokedAll_def)
  next
    case False
    then show ?thesis using x ih by (simp add: enabledNames_def invokedAll_def)
  qed
qed

lemma fanOut_first_error:
  "\<forall>(n, p) \<in> set pre. isEnabled p \<longrightarrow> fst (m p) = None \<Longrightarrow> isEnabled q \<Longrightarrow>
   m q = (Some e, q') \<Longrightarrow>
   fanOut m (pre @ (d, q) # post) =
     (Some e, enabledNames pre @ [d], invokedAll m pre @ (d, q') # post)"
proof (induction pre)
  case Nil
  then show ?case by (simp add: enabledNames_def invokedAll_def)
next
  case (Cons x pre)
  obtain n p where x: "x = (n, p)" by (cases x)
  have ih: "fanOut m (pre @ (d, q) # post) =
     (Some e, enabledNames pre @ [d], invokedAll m pre @ (d, q') # post)"
    using Cons by simp
  show ?case
  proof (cases "isEnabled p")
    case True
    then have "fst (m p) = None" using Cons.prems x by simp
    then obtain p' where "m p = (None, p')" by (cases "m p") simp
    then show ?thesis using True x ih by (simp add: enabledNames_def invokedAll_def)
  next
    case False
    then show ?thesis using x ih by (simp add: enabledNames_def invokedAll_def)
  qed
qed

lemmas provider_eval =
  trackEvent_def identifyUser_def trackPageView_def trackEventInternal_def
  identifyUserInternal_def trackPageViewInternal_def guarded_def unguarded_def enable_def
  disable_def base_enable_def base_disable_def propsArg_def titleValue_def
  mapToMixpanelProperties_def mappedKey_def propertyMap_def
  dispatch_def proxy_trackEvent_def proxy_identifyUser_def proxy_trackPageView_def
  enableProvider_def disableProvider_def raisingFor_def allPresent_def allAbsent_def
  demoEvent_def demoUser_def demoPageView_def demoProxy_def

section \<open>Facts about the readiness poll\<close>

lemma enabled_enable: "enabled (snd (enable env p)) = True"
  by (simp add: enable_def unguarded_def base_enable_def split: kind.splits backend.splits)

lemma enable_no_error: "kind p \<noteq> Mixpanel \<Longrightarrow> fst (enable env p) = None"
  by (cases "kind p") (simp_all add: enable_def)

lemma enabled_initializeVendor:
  "enabled (initializeVendor env raises p) =
     (if snd (attempt raises (initCalls (kind p) p)) then enabled p else True)"
proof -
  obtain made raised where a: "attempt raises (initCalls (kind p) p) = (made, raised)"
    by (cases "attempt raises (initCalls (kind p) p)")
  obtain r p2 where e: "enable env (p\<lparr>calls := calls p @ made\<rparr>) = (r, p2)"
    by (cases "enable env (p\<lparr>calls := calls p @ made\<rparr>)")
  have "enabled p2" using enabled_enable [of env "p\<lparr>calls := calls p @ made\<rparr>"] e by simp
  then show ?thesis using a e by (simp add: initializeVendor_def Let_def split: option.splits)
qed

lemma checkReady_times:
  "attempts \<le> 10 \<Longrightarrow>
   \<exists>n. 1 \<le> n \<and> n \<le> 11 - attempts \<and>
       fst (checkReady world now attempts p) = map (\<lambda>i. now + 100 * i) [0..<n]"
proof (induction world now attempts p rule: checkReady.induct)
  case (1 world now attempts p)
  show ?case
  proof (cases "vendor (world now) (kind p)")
    case (Present raises)
    then have "fst (checkReady world now attempts p) = map (\<lambda>i. now + 100 * i) [0..<1]"
      by simp
    then show ?thesis using "1.prems" by (intro exI [of _ 1]) simp
  next
    case Absent
    show ?thesis
    proof (cases "attempts < 10")
      case True
      then obtain n where n: "1 \<le> n" "n \<le> 11 - (attempts + 1)"
        "fst (checkReady world (now + 100) (attempts + 1) p) = map (\<lambda>i. now + 100 + 100 * i) [0..<n]"
        using "1.IH" [OF Absent True] by auto
      have "fst (checkReady world now attempts p) = now # map (\<lambda>i. now + 100 + 100 * i) [0..<n]"
        using Absent True n(3) by (simp add: split_beta)
      also have "\<dots> = map (\<lambda>i. now + 100 * i) [0..<Suc n]"
        by (simp add: upt_conv_Cons map_Suc_upt [symmetric] del: upt_Suc)
      finally show ?thesis using n True by (intro exI [of _ "Suc n"]) simp
    next
      case False
      then have "fst (checkReady world now attempts p) = map (\<lambda>i. now + 100 * i) [0..<1]"
        using Absent by simp
      then show ?thesis using "1.prems" by (intro exI [of _ 1]) simp
    qed
  qed
qed

lemma checkReady_first_success:
  "\<forall>j < i. vendor (world (now + 100 * j)) (kind p) = Absent \<Longrightarrow>
   vendor (world (now + 100 * i)) (kind p) = Present raises \<Longrightarrow> attempts + i \<le> 10 \<Longrightarrow>
   checkReady world now attempts p =
     (map (\<lambda>j. now + 100 * j) [0..<Suc i], initializeVendor (world (now + 100 * i)) raises p)"
proof (induction i arbitrary: now attempts)
  case 0
  then show ?case by simp
next
  case (Suc i)
  have here: "vendor (world now) (kind p) = Absent" using Suc.prems(1) [rule_format, of 0] by simp
  have later: "\<forall>j < i. vendor (world (now + 100 + 100 * j)) (kind p) = Absent"
  proof (intro allI impI)
    fix j assume "j < i"
    then show "vendor (world (now + 100 + 100 * j)) (kind p) = Absent"
      using Suc.prems(1) [rule_format, of "Suc j"] by (simp add: add.assoc)
  qed
  have at: "vendor (world (now + 100 + 100 * i)) (kind p) = Present raises"
    using Suc.prems(2) by (simp add: add.assoc)
  have ih: "checkReady world (now + 100) (attempts + 1) p =
     (map (\<lambda>j. now + 100 + 100 * j) [0..<Suc i],
      initializeVendor (world (now + 100 + 100 * i)) raises p)"
    using Suc.IH [OF later at] Suc.prems(3) by simp
  have lt: "attempts < 10" using Suc.prems(3) by simp
  have "checkReady world now attempts p =
     (now # map (\<lambda>j. now + 100 + 100 * j) [0..<Suc i],
      initializeVendor (world (now + 100 + 100 * i)) raises p)"
    using here lt ih by (simp del: upt_Suc)
  moreover have "now # map (\<lambda>j. now + 100 + 100 * j) [0..<Suc i] =
      map (\<lambda>j. now + 100 * j) [0..<Suc (Suc i)]"
    by (simp add: upt_conv_Cons map_Suc_upt [symmetric] del: upt_Suc)
  ultimately show ?case by (simp add: add.assoc del: upt_Suc)
qed

lemma checkReady_exhausted:
  "\<forall>j \<le> r. vendor (world (now + 100 * j)) (kind p) = Absent \<Longrightarrow> attempts + r = 10 \<Longrightarrow>
   checkReady world now attempts p =
     (map (\<lambda>j. now + 100 * j) [0..<Suc r],
      log (provider_name (kind p) @ '' failed to initialize after multiple attempts'') p)"
proof (induction r arbitrary: now attempts)
  case 0
  then show ?case by simp
next
  case (Suc r)
  have here: "vendor (world now) (kind p) = Absent" using Suc.prems(1) [rule_format, of 0] by simp
  have later: "\<forall>j \<le> r. vendor (world (now + 100 + 100 * j)) (kind p) = Absent"
  proof (intro allI impI)
    fix j assume "j \<le> r"
    then show "vendor (world (now + 100 + 100 * j)) (kind p) = Absent"
      using Suc.prems(1) [rule_format, of "Suc j"] by (simp add: add.assoc)
  qed
  have ih: "checkReady world (now + 100) (attempts + 1) p =
     (map (\<lambda>j. now + 100 + 100 * j) [0..<Suc r],
      log (provider_name (kind p) @ '' failed to initialize after multiple attempts'') p)"
    using Suc.IH [OF later] Suc.prems(2) by simp
  have lt: "attempts < 10" using Suc.prems(2) by simp
  have "checkReady world now attempts p =
     (now # map (\<lambda>j. now + 100 + 100 * j) [0..<Suc r],
      log (provider_name (kind p) @ '' failed to initialize after multiple attempts'') p)"
    using here lt ih by (simp del: upt_Suc)
  moreover have "now # map (\<lambda>j. now + 100 + 100 * j) [0..<Suc r] =
      map (\<lambda>j. now + 100 * j) [0..<Suc (Suc r)]"
    by (simp add: upt_conv_Cons map_Suc_upt [symmetric] del: upt_Suc)
  ultimately show ?case by (simp del: upt_Suc)
qed




lemmas poll_eval =
  initializePolled_def initializeVendor_def enable_def base_enable_def log_def
  AmplitudeProvider_def new_provider_def allPresent_def allAbsent_def Let_def

section \<open>The claims\<close>

subsection \<open>C1: one fetch for each script\<close>




subsection \<open>C2: an error that leaves a provider's method\<close>

text \<open>
  Claim C2, as the code has it. \<^verbatim>\<open>trackEvent\<close>, \<^verbatim>\<open>identifyUser\<close> and
  \<^verbatim>\<open>trackPageView\<close> of the proxy call the method of each enabled provider in
  registration order, with nothing around the call. When no call raises, every
  enabled provider is called and no error results. When the call of an enabled
  provider raises, the ones before it not having raised, the proxy's method ends
  with that error: the enabled providers up to that one were called, and every
  provider registered after it is left as it was, not called.
\<close>

theorem fan_out_stops_at_the_first_error:
  "((\<forall>(n, p) \<in> set (providers s). isEnabled p \<longrightarrow> fst (m p) = None) \<longrightarrow>
      dispatch m s =
        (None, enabledNames (providers s), s\<lparr>providers := invokedAll m (providers s)\<rparr>)) \<and>
   (providers s = pre @ (d, q) # post \<longrightarrow>
    (\<forall>(n, p) \<in> set pre. isEnabled p \<longrightarrow> fst (m p) = None) \<longrightarrow>
    isEnabled q \<longrightarrow> m q = (Some e, q') \<longrightarrow>
      dispatch m s =
        (Some e, enabledNames pre @ [d],
         s\<lparr>providers := invokedAll m pre @ (d, q') # post\<rparr>))"
  by (simp add: dispatch_def fanOut_no_error fanOut_first_error)


text \<open>With \<^verbatim>\<open>BaseProvider\<close>'s method both providers are called; with a method
  that raises for GA4, the second of the two, the error leaves \<^verbatim>\<open>trackEvent\<close>
  after both were called.\<close>

theorem fan_out_stops_at_the_first_error_witness:
  "fst (dispatch (\<lambda>p. (None, trackEvent allPresent demoEvent p)) demoProxy) = None \<and>
   fst (snd (dispatch (\<lambda>p. (None, trackEvent allPresent demoEvent p)) demoProxy)) =
     [''mixpanel'', ''ga4''] \<and>
   fst (dispatch (raisingFor GA4 (\<lambda>p. (None, trackEvent allPresent demoEvent p))) demoProxy) =
     Some ''Provider error'' \<and>
   fst (snd (dispatch (raisingFor GA4 (\<lambda>p. (None, trackEvent allPresent demoEvent p))) demoProxy)) =
     [''mixpanel'', ''ga4'']"
  using fan_out_stops_at_the_first_error
    [where s = demoProxy and m = "\<lambda>p. (None, trackEvent allPresent demoEvent p)"
       and pre = "[]" and d = "''mixpanel''" and post = "[]"
       and q = "MixpanelProvider [] False []" and q' = "MixpanelProvider [] False []"
       and e = "''Provider error''"]
    fan_out_stops_at_the_first_error
    [where s = demoProxy
       and m = "raisingFor GA4 (\<lambda>p. (None, trackEvent allPresent demoEvent p))"
       and pre = "[(''mixpanel'', the (map_of (providers demoProxy) ''mixpanel''))]"
       and d = "''ga4''" and post = "[]"
       and q = "the (map_of (providers demoProxy) ''ga4'')"
       and q' = "the (map_of (providers demoProxy) ''ga4'')"
       and e = "''Provider error''"]
  by (simp add: provider_eval proxy_eval enabledNames_def invokedAll_def)

text \<open>Mixpanel and GA4 are registered, in this order, and enabled. The method
  raises for Mixpanel: the error leaves \<^verbatim>\<open>trackEvent\<close>, and GA4, registered
  after it, is not called and makes no vendor call.\<close>

theorem fan_out_counterexample:
  "getAvailableProviders demoProxy = [''mixpanel'', ''ga4''] \<and>
   isProviderEnabled ''ga4'' demoProxy = True \<and>
   fst (dispatch (raisingFor Mixpanel (\<lambda>p. (None, trackEvent allPresent demoEvent p))) demoProxy) =
     Some ''Provider error'' \<and>
   fst (snd (dispatch (raisingFor Mixpanel (\<lambda>p. (None, trackEvent allPresent demoEvent p)))
     demoProxy)) = [''mixpanel''] \<and>
   map_option calls (map_of (providers (snd (snd
     (dispatch (raisingFor Mixpanel (\<lambda>p. (None, trackEvent allPresent demoEvent p))) demoProxy))))
     ''ga4'') = Some []"
  by (simp add: provider_eval proxy_eval)

subsection \<open>C3: updateConfig with a providers key\<close>

text \<open>
  Claim C3, as the code has it. When the partial configuration has a
  \<^verbatim>\<open>providers\<close> key, \<^verbatim>\<open>updateConfig\<close> merges the partial configuration over the
  current one key by key, so the \<^verbatim>\<open>providers\<close> object of the result is the
  partial's own, whole; it then empties the provider map and registers anew from
  that object. The providers afterwards are the ones a fresh proxy would
  register for that object, each newly constructed: exactly the destinations
  eligible in the partial's \<^verbatim>\<open>providers\<close> object, in declaration order.
  A destination the partial does not list has no provider afterwards.
\<close>

theorem updateConfig_rebuilds_from_partial:
  assumes "new_providers newConfig = Some c"
  shows "config (updateConfig init newConfig s) = mergeConfig (config s) newConfig \<and>
         cfg_providers (config (updateConfig init newConfig s)) = c \<and>
         providers (updateConfig init newConfig s) =
           providers (initializeProviders init
             \<lparr>providers = [], config = configOf c, proxy_globalProperties = [], console = []\<rparr>) \<and>
         getAvailableProviders (updateConfig init newConfig s) = filter (eligible c) declared"
proof -
  have cfg: "config (updateConfig init newConfig s) = mergeConfig (config s) newConfig"
    using assms by (simp add: updateConfig_def Let_def split: option.splits)
  have c: "cfg_providers (mergeConfig (config s) newConfig) = c"
    using assms by (simp add: mergeConfig_def)
  have ps: "providers (updateConfig init newConfig s) = built init c"
    using assms c
    by (simp add: updateConfig_def Let_def providers_initializeProviders_fresh split: option.splits)
  have fresh: "providers (initializeProviders init
             \<lparr>providers = [], config = configOf c, proxy_globalProperties = [], console = []\<rparr>) =
          built init c"
    by (simp add: providers_initializeProviders configOf_def)
  show ?thesis using cfg c ps fresh by (simp add: getAvailableProviders_def names_built)
qed

text \<open>Both destinations registered; an update that lists both, Mixpanel switched
  off, leaves GA4 alone registered.\<close>

theorem updateConfig_rebuilds_from_partial_witness:
  "getAvailableProviders
     (AnalyticsProxy base_enable
        (configOf \<lparr>mixpanel = on ''test-token'', ga4 = on ''G-TEST123'', logrocket = None,
                   amplitude = None\<rparr>)) = [''mixpanel'', ''ga4''] \<and>
   getAvailableProviders
     (updateConfig base_enable
        (onlyProviders \<lparr>mixpanel = off (Some ''test-token''), ga4 = on ''G-TEST123'',
                        logrocket = None, amplitude = None\<rparr>)
        (AnalyticsProxy base_enable
           (configOf \<lparr>mixpanel = on ''test-token'', ga4 = on ''G-TEST123'', logrocket = None,
                      amplitude = None\<rparr>))) = [''ga4'']"
  using updateConfig_rebuilds_from_partial
    [of "onlyProviders \<lparr>mixpanel = off (Some ''test-token''), ga4 = on ''G-TEST123'',
                        logrocket = None, amplitude = None\<rparr>"
        "\<lparr>mixpanel = off (Some ''test-token''), ga4 = on ''G-TEST123'',
                        logrocket = None, amplitude = None\<rparr>"
        base_enable
        "AnalyticsProxy base_enable
           (configOf \<lparr>mixpanel = on ''test-token'', ga4 = on ''G-TEST123'', logrocket = None,
                      amplitude = None\<rparr>)"]
  by (simp add: proxy_eval base_enable_def)

text \<open>The claim's own example: the update lists Mixpanel only. GA4 was registered
  and enabled before; afterwards no provider is registered, GA4 included.\<close>

theorem updateConfig_drops_the_others_counterexample:
  "isProviderEnabled ''ga4''
     (AnalyticsProxy base_enable
        (configOf \<lparr>mixpanel = on ''test-token'', ga4 = on ''G-TEST123'', logrocket = None,
                   amplitude = None\<rparr>)) = True \<and>
   getAvailableProviders
     (updateConfig base_enable
        (onlyProviders \<lparr>mixpanel = off None, ga4 = None, logrocket = None, amplitude = None\<rparr>)
        (AnalyticsProxy base_enable
           (configOf \<lparr>mixpanel = on ''test-token'', ga4 = on ''G-TEST123'', logrocket = None,
                      amplitude = None\<rparr>))) = [] \<and>
   getProvider ''ga4''
     (updateConfig base_enable
        (onlyProviders \<lparr>mixpanel = off None, ga4 = None, logrocket = None, amplitude = None\<rparr>)
        (AnalyticsProxy base_enable
           (configOf \<lparr>mixpanel = on ''test-token'', ga4 = on ''G-TEST123'', logrocket = None,
                      amplitude = None\<rparr>))) = None"
  by (simp add: proxy_eval base_enable_def getProvider_def)

subsection \<open>C4: global properties are merged into events and page views\<close>

text \<open>
  Claim C4, as the code has it. For an enabled provider, \<^verbatim>\<open>trackEvent\<close> and
  \<^verbatim>\<open>trackPageView\<close> pass to the vendor the payload whose properties are the
  provider's global properties overwritten by the call's own (the vendor calls
  made are those of the enriched payload, up to the first that raises);
  \<^verbatim>\<open>identifyUser\<close> passes the user as given, with no global property added.
  In the merged object a key of the call's properties (an object, so its keys
  are distinct) has the call's value, and any other key the global one.
\<close>

theorem enrichment_of_events_and_page_views:
  assumes "enabled p"
  shows
    "calls (trackEvent env event p) =
       calls p @
       (case vendor env (kind p) of
          Absent \<Rightarrow> []
        | Present raises \<Rightarrow>
            fst (attempt raises
              (eventCalls (kind p)
                 (event\<lparr>ev_properties :=
                    Some (spread (globalProperties p) (orEmpty (ev_properties event)))\<rparr>)))) \<and>
     calls (trackPageView env pageView p) =
       calls p @
       (case vendor env (kind p) of
          Absent \<Rightarrow> []
        | Present raises \<Rightarrow>
            fst (attempt raises
              (pageViewCalls (kind p) (credential p)
                 (pageView\<lparr>pv_properties :=
                    Some (spread (globalProperties p) (orEmpty (pv_properties pageView)))\<rparr>)))) \<and>
     calls (identifyUser env user p) =
       calls p @
       (case vendor env (kind p) of
          Absent \<Rightarrow> []
        | Present raises \<Rightarrow>
            fst (attempt raises (identifyCalls (inherited env) (kind p) (credential p) user))) \<and>
     (distinct (map fst properties) \<longrightarrow>
        map_of (spread (globalProperties p) properties) k =
          (case map_of properties k of Some v \<Rightarrow> Some v | None \<Rightarrow> map_of (globalProperties p) k))"
  using assms
  by (simp add: trackEvent_def trackPageView_def identifyUser_def trackEventInternal_def
        trackPageViewInternal_def identifyUserInternal_def calls_guarded Let_def
        spread_precedence)

text \<open>The specification's example: \<^verbatim>\<open>setGlobalProperties({a: 1})\<close>, then
  \<^verbatim>\<open>trackEvent({name: "x", properties: {a: 2}})\<close> delivers \<^verbatim>\<open>a = 2\<close>.\<close>

theorem enrichment_of_events_and_page_views_witness:
  "enabled (base_enable (setGlobalProperties [(''a'', JNum 1)] (MixpanelProvider ''test-token'' False []))) \<and>
   calls (trackEvent allPresent demoEvent
     (base_enable (setGlobalProperties [(''a'', JNum 1)] (MixpanelProvider ''test-token'' False [])))) =
     [Call ''mixpanel.track'' [AStr ''x'', AObj [(''a'', JNum 2)]]] \<and>
   calls (trackPageView allPresent demoPageView
     (base_enable (setGlobalProperties [(''a'', JNum 1)] (MixpanelProvider ''test-token'' False [])))) =
     [Call ''mixpanel.track''
        [AStr ''Page View'',
         AObj [(''url'', JStr ''/test-page''), (''title'', JStr ''Test Page''), (''a'', JNum 1),
               (''referrer'', JStr ''test.com'')]]] \<and>
   distinct (map fst [(''a'', JNum 2)]) \<and>
   map_of (spread (globalProperties
     (base_enable (setGlobalProperties [(''a'', JNum 1)] (MixpanelProvider ''test-token'' False []))))
     [(''a'', JNum 2)]) ''a'' = Some (JNum 2)"
  using enrichment_of_events_and_page_views
    [of "base_enable (setGlobalProperties [(''a'', JNum 1)] (MixpanelProvider ''test-token'' False []))"
        allPresent demoEvent demoPageView demoUser "[(''a'', JNum 2)]" "''a''"]
  by (simp add: provider_eval proxy_eval)

text \<open>An enabled provider whose global properties are \<^verbatim>\<open>{a: 1}\<close> identifies a
  user with the properties \<^verbatim>\<open>{b: 2}\<close>: the vendor receives \<^verbatim>\<open>{b: 2}\<close>, without
  \<^verbatim>\<open>a\<close>.\<close>

theorem identifyUser_is_not_enriched_counterexample:
  "enabled (base_enable (setGlobalProperties [(''a'', JNum 1)] (LogRocketProvider ''test-app-id'' []))) \<and>
   globalProperties
     (base_enable (setGlobalProperties [(''a'', JNum 1)] (LogRocketProvider ''test-app-id'' []))) =
     [(''a'', JNum 1)] \<and>
   calls (identifyUser allPresent demoUser
     (base_enable (setGlobalProperties [(''a'', JNum 1)] (LogRocketProvider ''test-app-id'' [])))) =
     [Call ''LogRocket.identify'' [AStr ''u1'', AObj [(''b'', JNum 2)]]]"
  by (simp add: provider_eval proxy_eval)

subsection \<open>C5: the readiness poll\<close>

text \<open>
  Claim C5, as the code has it. \<^verbatim>\<open>initializeGA4\<close>, \<^verbatim>\<open>initializeLogRocket\<close> and
  \<^verbatim>\<open>initializeAmplitude\<close> always come to an end: the readiness test is evaluated
  at least once and at most eleven times (a first check and up to ten retries),
  each 100 ms after the one before. At the first check that finds the vendor
  global, the vendor is initialized and the poll ends; the provider's \<open>enabled\<close>
  flag is then true, unless the vendor's \<^verbatim>\<open>init\<close> raises, which is logged and
  leaves the flag as it was. When eleven checks in a row do not find the global,
  the poll ends by logging that the provider failed to initialize, and changes
  nothing else: the flag stays as it was.
\<close>

theorem readiness_poll_is_bounded:
  "(\<exists>n. 1 \<le> n \<and> n \<le> 11 \<and>
        fst (initializePolled world now p) = map (\<lambda>j. now + 100 * j) [0..<n]) \<and>
   ((\<forall>j < i. vendor (world (now + 100 * j)) (kind p) = Absent) \<longrightarrow>
    vendor (world (now + 100 * i)) (kind p) = Present raises \<longrightarrow> i \<le> 10 \<longrightarrow>
      initializePolled world now p =
        (map (\<lambda>j. now + 100 * j) [0..<Suc i],
         initializeVendor (world (now + 100 * i)) raises p) \<and>
      enabled (initializeVendor (world (now + 100 * i)) raises p) =
        (if snd (attempt raises (initCalls (kind p) p)) then enabled p else True)) \<and>
   ((\<forall>j \<le> 10. vendor (world (now + 100 * j)) (kind p) = Absent) \<longrightarrow>
      initializePolled world now p =
        (map (\<lambda>j. now + 100 * j) [0..<11],
         log (provider_name (kind p) @ '' failed to initialize after multiple attempts'') p))"
proof (intro conjI impI)
  show "\<exists>n. 1 \<le> n \<and> n \<le> 11 \<and>
        fst (initializePolled world now p) = map (\<lambda>j. now + 100 * j) [0..<n]"
    using checkReady_times [of 0 world now p] by (simp add: initializePolled_def)
next
  assume "\<forall>j < i. vendor (world (now + 100 * j)) (kind p) = Absent"
    and "vendor (world (now + 100 * i)) (kind p) = Present raises" and "i \<le> 10"
  then show "initializePolled world now p =
        (map (\<lambda>j. now + 100 * j) [0..<Suc i],
         initializeVendor (world (now + 100 * i)) raises p)"
    unfolding initializePolled_def by (intro checkReady_first_success) simp_all
next
  show "enabled (initializeVendor (world (now + 100 * i)) raises p) =
        (if snd (attempt raises (initCalls (kind p) p)) then enabled p else True)"
    by (rule enabled_initializeVendor)
next
  assume "\<forall>j \<le> 10. vendor (world (now + 100 * j)) (kind p) = Absent"
  then have "checkReady world now 0 p =
        (map (\<lambda>j. now + 100 * j) [0..<Suc 10],
         log (provider_name (kind p) @ '' failed to initialize after multiple attempts'') p)"
    by (intro checkReady_exhausted) simp_all
  then show "initializePolled world now p =
        (map (\<lambda>j. now + 100 * j) [0..<11],
         log (provider_name (kind p) @ '' failed to initialize after multiple attempts'') p)"
    by (simp add: initializePolled_def eval_nat_numeral del: upt_Suc)
qed

text \<open>Amplitude's global appearing after 250 ms, and never.\<close>

theorem readiness_poll_is_bounded_witness:
  "fst (initializePolled (\<lambda>t. if t < 250 then allAbsent else allPresent) 0
          (AmplitudeProvider ''test-api-key'' [])) = [0, 100, 200, 300] \<and>
   enabled (snd (initializePolled (\<lambda>t. if t < 250 then allAbsent else allPresent) 0
          (AmplitudeProvider ''test-api-key'' []))) = True \<and>
   fst (initializePolled (\<lambda>t. allAbsent) 0 (AmplitudeProvider ''test-api-key'' [])) =
     [0, 100, 200, 300, 400, 500, 600, 700, 800, 900, 1000] \<and>
   enabled (snd (initializePolled (\<lambda>t. allAbsent) 0 (AmplitudeProvider ''test-api-key'' []))) = False \<and>
   logged (snd (initializePolled (\<lambda>t. allAbsent) 0 (AmplitudeProvider ''test-api-key'' []))) =
     [''Amplitude failed to initialize after multiple attempts'']"
  using readiness_poll_is_bounded
    [where world = "\<lambda>t. if t < 250 then allAbsent else allPresent" and now = 0
       and p = "AmplitudeProvider ''test-api-key'' []" and i = 3 and raises = "\<lambda>c. False"]
    readiness_poll_is_bounded
    [where world = "\<lambda>t. allAbsent" and now = 0
       and p = "AmplitudeProvider ''test-api-key'' []" and i = 0 and raises = "\<lambda>c. False"]
  by (simp add: poll_eval)

text \<open>When the vendor global never appears, the readiness test is evaluated
  eleven times, not ten: once at the start and once after each of the ten
  timeouts.\<close>

theorem readiness_poll_counterexample:
  "length (fst (initializePolled (\<lambda>t. allAbsent) 0 (AmplitudeProvider ''test-api-key'' []))) = 11"
  by (simp add: poll_eval)

subsection \<open>C6: a disabled provider makes no vendor call\<close>




subsection \<open>C7: one adapter per eligible destination\<close>

text \<open>
  Claim C7. For every configuration, the proxy built from it has one provider
  for each eligible destination (enabled, with a credential that is present and
  not empty) and none for any other; \<^verbatim>\<open>getAvailableProviders()\<close> returns the
  eligible names in the order mixpanel, ga4, logrocket, amplitude. The provider
  registered for an eligible destination is the one its own constructor makes
  from the destination's credential, debug flag and options, after its
  \<^verbatim>\<open>initialize()\<close> was started and the global properties of the configuration
  were set on it. Leaving a destination out writes nothing to the console: the
  only line the constructor can write is the debug line.
\<close>

theorem adapters_are_the_eligible:
  "getAvailableProviders (AnalyticsProxy init cfg) = filter (eligible (cfg_providers cfg)) declared \<and>
   distinct (getAvailableProviders (AnalyticsProxy init cfg)) \<and>
   length (providers (AnalyticsProxy init cfg)) =
     length (filter (eligible (cfg_providers cfg)) declared) \<and>
   (\<not> eligible (cfg_providers cfg) n \<longrightarrow> getProvider n (AnalyticsProxy init cfg) = None) \<and>
   (mixpanel (cfg_providers cfg) = Some m \<longrightarrow> pc_enabled m \<longrightarrow>
    pc_credential m = Some token \<longrightarrow> token \<noteq> [] \<longrightarrow>
      getProvider ''mixpanel'' (AnalyticsProxy init cfg) =
        Some (setGlobalProperties (orEmpty (cfg_globalProperties cfg))
                (init (MixpanelProvider token (case pc_debug m of None \<Rightarrow> False | Some b \<Rightarrow> b)
                         (orEmpty (pc_options m)))))) \<and>
   (ga4 (cfg_providers cfg) = Some g \<longrightarrow> pc_enabled g \<longrightarrow>
    pc_credential g = Some measurementId \<longrightarrow> measurementId \<noteq> [] \<longrightarrow>
      getProvider ''ga4'' (AnalyticsProxy init cfg) =
        Some (setGlobalProperties (orEmpty (cfg_globalProperties cfg))
                (init (GA4Provider measurementId
                         (case pc_debug g of None \<Rightarrow> False | Some b \<Rightarrow> b)
                         (orEmpty (pc_options g)))))) \<and>
   (logrocket (cfg_providers cfg) = Some l \<longrightarrow> pc_enabled l \<longrightarrow>
    pc_credential l = Some appId \<longrightarrow> appId \<noteq> [] \<longrightarrow>
      getProvider ''logrocket'' (AnalyticsProxy init cfg) =
        Some (setGlobalProperties (orEmpty (cfg_globalProperties cfg))
                (init (LogRocketProvider appId (orEmpty (pc_options l)))))) \<and>
   (amplitude (cfg_providers cfg) = Some a \<longrightarrow> pc_enabled a \<longrightarrow>
    pc_credential a = Some apiKey \<longrightarrow> apiKey \<noteq> [] \<longrightarrow>
      getProvider ''amplitude'' (AnalyticsProxy init cfg) =
        Some (setGlobalProperties (orEmpty (cfg_globalProperties cfg))
                (init (AmplitudeProvider apiKey (orEmpty (pc_options a)))))) \<and>
   console (AnalyticsProxy init cfg) =
     (if cfg_enableDebug cfg = Some True then [''AnalyticsProxy initialized with providers:''] else [])"
proof -
  let ?c = "cfg_providers cfg"
  let ?g = "orEmpty (cfg_globalProperties cfg)"
  have ps: "providers (AnalyticsProxy init cfg) =
      map (\<lambda>(n, p). (n, setGlobalProperties ?g p)) (built init ?c)"
    by (simp add: AnalyticsProxy_def proxy_setGlobalProperties_def providers_initializeProviders)
  have names: "getAvailableProviders (AnalyticsProxy init cfg) = filter (eligible ?c) declared"
    by (simp add: getAvailableProviders_def AnalyticsProxy_def providers_initializeProviders
          names_built)
  have dist: "distinct (getAvailableProviders (AnalyticsProxy init cfg))"
    unfolding names using distinct_declared by (rule distinct_filter)
  have len: "length (providers (AnalyticsProxy init cfg)) = length (filter (eligible ?c) declared)"
    using names_built [of init ?c] ps by (metis length_map)
  have get: "\<And>k. getProvider k (AnalyticsProxy init cfg) =
      map_option (setGlobalProperties ?g) (map_of (built init ?c) k)"
    unfolding getProvider_def ps by (rule map_of_map_values)
  have none: "\<not> eligible ?c n \<longrightarrow> getProvider n (AnalyticsProxy init cfg) = None"
  proof
    assume "\<not> eligible ?c n"
    then have "n \<notin> set (map fst (built init ?c))" unfolding names_built by simp
    then have "map_of (built init ?c) n = None" by (simp add: map_of_eq_None_iff)
    then show "getProvider n (AnalyticsProxy init cfg) = None" by (simp add: get)
  qed
  have mp: "mixpanel ?c = Some m \<longrightarrow> pc_enabled m \<longrightarrow> pc_credential m = Some token \<longrightarrow>
      token \<noteq> [] \<longrightarrow>
      getProvider ''mixpanel'' (AnalyticsProxy init cfg) =
        Some (setGlobalProperties ?g
                (init (MixpanelProvider token (case pc_debug m of None \<Rightarrow> False | Some b \<Rightarrow> b)
                         (orEmpty (pc_options m)))))"
    by (simp add: get built_def wanted_def truthy_def credentialOf_def debugOf_def optionsOf_def)
  have ga: "ga4 ?c = Some g \<longrightarrow> pc_enabled g \<longrightarrow> pc_credential g = Some measurementId \<longrightarrow>
      measurementId \<noteq> [] \<longrightarrow>
      getProvider ''ga4'' (AnalyticsProxy init cfg) =
        Some (setGlobalProperties ?g
                (init (GA4Provider measurementId
                         (case pc_debug g of None \<Rightarrow> False | Some b \<Rightarrow> b)
                         (orEmpty (pc_options g)))))"
    by (simp add: get built_def wanted_def truthy_def credentialOf_def debugOf_def optionsOf_def)
  have lr: "logrocket ?c = Some l \<longrightarrow> pc_enabled l \<longrightarrow> pc_credential l = Some appId \<longrightarrow>
      appId \<noteq> [] \<longrightarrow>
      getProvider ''logrocket'' (AnalyticsProxy init cfg) =
        Some (setGlobalProperties ?g (init (LogRocketProvider appId (orEmpty (pc_options l)))))"
    by (simp add: get built_def wanted_def truthy_def credentialOf_def debugOf_def optionsOf_def)
  have am: "amplitude ?c = Some a \<longrightarrow> pc_enabled a \<longrightarrow> pc_credential a = Some apiKey \<longrightarrow>
      apiKey \<noteq> [] \<longrightarrow>
      getProvider ''amplitude'' (AnalyticsProxy init cfg) =
        Some (setGlobalProperties ?g (init (AmplitudeProvider apiKey (orEmpty (pc_options a)))))"
    by (simp add: get built_def wanted_def truthy_def credentialOf_def debugOf_def optionsOf_def)
  have con: "console (AnalyticsProxy init cfg) =
     (if cfg_enableDebug cfg = Some True then [''AnalyticsProxy initialized with providers:''] else [])"
    by (simp add: AnalyticsProxy_def initializeProviders_def Let_def debugLog_def)
  from names dist len none mp ga lr am con show ?thesis by (intro conjI)
qed

text \<open>Two of the four destinations enabled, as in the test suite; and all four.\<close>

theorem adapters_are_the_eligible_witness:
  "getAvailableProviders
     (AnalyticsProxy (\<lambda>p. p)
        (configOf \<lparr>mixpanel = on ''test-token'', ga4 = off (Some ''G-TEST123''),
                   logrocket = None, amplitude = on ''test-api-key''\<rparr>)) =
     [''mixpanel'', ''amplitude''] \<and>
   getProvider ''ga4''
     (AnalyticsProxy (\<lambda>p. p)
        (configOf \<lparr>mixpanel = on ''test-token'', ga4 = off (Some ''G-TEST123''),
                   logrocket = None, amplitude = on ''test-api-key''\<rparr>)) = None \<and>
   map (\<lambda>(n, p). (n, kind p, credential p))
     (providers (AnalyticsProxy (\<lambda>p. p)
        (configOf \<lparr>mixpanel = on ''test-token'', ga4 = on ''G-TEST123'',
                   logrocket = on ''app/id'', amplitude = on ''test-api-key''\<rparr>))) =
     [(''mixpanel'', Mixpanel, ''test-token''), (''ga4'', GA4, ''G-TEST123''),
      (''logrocket'', LogRocket, ''app/id''), (''amplitude'', Amplitude, ''test-api-key'')] \<and>
   getProvider ''mixpanel''
     (AnalyticsProxy (\<lambda>p. p)
        (configOf \<lparr>mixpanel = on ''test-token'', ga4 = on ''G-TEST123'',
                   logrocket = on ''app/id'', amplitude = on ''test-api-key''\<rparr>)) =
     Some \<lparr>kind = Mixpanel, enabled = False, globalProperties = [],
            credential = ''test-token'', debug = False, options = [], calls = [],
            logged = [''Global properties updated'']\<rparr>"
  using adapters_are_the_eligible
    [where init = "\<lambda>p. p"
       and cfg = "configOf \<lparr>mixpanel = on ''test-token'', ga4 = off (Some ''G-TEST123''),
                   logrocket = None, amplitude = on ''test-api-key''\<rparr>"
       and n = "''ga4''"
       and m = "\<lparr>pc_enabled = True, pc_credential = Some ''test-token'', pc_debug = None,
                 pc_options = None\<rparr>"
       and token = "''test-token''"
       and a = "\<lparr>pc_enabled = True, pc_credential = Some ''test-api-key'', pc_debug = None,
                 pc_options = None\<rparr>"
       and apiKey = "''test-api-key''"]
    adapters_are_the_eligible
    [where init = "\<lambda>p. p"
       and cfg = "configOf \<lparr>mixpanel = on ''test-token'', ga4 = on ''G-TEST123'',
                   logrocket = on ''app/id'', amplitude = on ''test-api-key''\<rparr>"
       and n = "''segment''"
       and m = "\<lparr>pc_enabled = True, pc_credential = Some ''test-token'', pc_debug = None,
                 pc_options = None\<rparr>"
       and token = "''test-token''"
       and g = "\<lparr>pc_enabled = True, pc_credential = Some ''G-TEST123'', pc_debug = None,
                 pc_options = None\<rparr>"
       and measurementId = "''G-TEST123''"
       and l = "\<lparr>pc_enabled = True, pc_credential = Some ''app/id'', pc_debug = None,
                 pc_options = None\<rparr>"
       and appId = "''app/id''"
       and a = "\<lparr>pc_enabled = True, pc_credential = Some ''test-api-key'', pc_debug = None,
                 pc_options = None\<rparr>"
       and apiKey = "''test-api-key''"]
  by (simp add: proxy_eval getProvider_def)

subsection \<open>C8: enabling or disabling an unknown provider\<close>

text \<open>
  Claim C8. For a name with no registered provider, \<^verbatim>\<open>enableProvider\<close> and
  \<^verbatim>\<open>disableProvider\<close> raise nothing and leave the proxy as it was (its
  providers with their flags, its configuration, its global properties) but for
  the warning written to the console.
\<close>

theorem unknown_provider_is_ignored:
  assumes "map_of (providers s) providerName = None"
  shows "enableProvider env providerName s =
           (None, s\<lparr>console := console s @ [''Provider '' @ providerName @ '' not found'']\<rparr>) \<and>
         disableProvider env providerName s =
           (None, s\<lparr>console := console s @ [''Provider '' @ providerName @ '' not found'']\<rparr>)"
  using assms by (simp add: enableProvider_def disableProvider_def)

theorem unknown_provider_is_ignored_witness:
  "map_of (providers (AnalyticsProxy (\<lambda>p. p) (configOf \<lparr>mixpanel = on ''test-token'', ga4 = None,
      logrocket = None, amplitude = None\<rparr>))) ''nonexistent'' = None \<and>
   fst (disableProvider allPresent ''nonexistent''
          (AnalyticsProxy (\<lambda>p. p) (configOf \<lparr>mixpanel = on ''test-token'', ga4 = None,
             logrocket = None, amplitude = None\<rparr>))) = None \<and>
   providers (snd (disableProvider allPresent ''nonexistent''
          (AnalyticsProxy (\<lambda>p. p) (configOf \<lparr>mixpanel = on ''test-token'', ga4 = None,
             logrocket = None, amplitude = None\<rparr>)))) =
     providers (AnalyticsProxy (\<lambda>p. p) (configOf \<lparr>mixpanel = on ''test-token'', ga4 = None,
             logrocket = None, amplitude = None\<rparr>)) \<and>
   console (snd (enableProvider allPresent ''nonexistent''
          (AnalyticsProxy (\<lambda>p. p) (configOf \<lparr>mixpanel = on ''test-token'', ga4 = None,
             logrocket = None, amplitude = None\<rparr>)))) = [''Provider nonexistent not found'']"
  using unknown_provider_is_ignored
    [of "AnalyticsProxy (\<lambda>p. p) (configOf \<lparr>mixpanel = on ''test-token'', ga4 = None,
             logrocket = None, amplitude = None\<rparr>)" "''nonexistent''" allPresent]
  by (simp add: proxy_eval)

subsection \<open>C9: the property-name table of identify\<close>

text \<open>
  Claim C9, as the code has it. Only \<^verbatim>\<open>MixpanelProvider\<close> has a table of
  property names. On \<^verbatim>\<open>identifyUser\<close> it passes
  \<^verbatim>\<open>mapToMixpanelProperties(user.properties)\<close> to \<^verbatim>\<open>people.set\<close>; its events and
  page views pass their properties with the keys as they are. GA4, LogRocket
  and Amplitude pass a user's properties as given. The mapping renames each
  entry's key by \<open>mappedKey\<close> and keeps its value: a key of the table becomes
  its entry, a key that is neither in the table nor a member every object
  inherits stays as it is. Under each resulting key the object holds the value of
  the last entry renamed to it; when no two entries are renamed to the same key,
  the result is the list of renamed entries, in order, with every value.
\<close>

theorem mixpanel_remaps_identify_only:
  "map_of (mapToMixpanelProperties inh properties) =
     map_of (rev (map (\<lambda>(key, value). (mappedKey inh key, value)) properties)) \<and>
   (distinct (map (mappedKey inh \<circ> fst) properties) \<longrightarrow>
      mapToMixpanelProperties inh properties =
        map (\<lambda>(key, value). (mappedKey inh key, value)) properties) \<and>
   (map_of propertyMap key = None \<longrightarrow> inh key = None \<longrightarrow> mappedKey inh key = key) \<and>
   (map_of propertyMap key = Some key' \<longrightarrow> mappedKey inh key = key') \<and>
   objects (identifyCalls inh Mixpanel cred user) =
     (case user_properties user of None \<Rightarrow> [] | Some ps \<Rightarrow> [mapToMixpanelProperties inh ps]) \<and>
   (k \<noteq> Mixpanel \<longrightarrow> user_properties user = Some ps \<longrightarrow>
      ps \<in> set (objects (identifyCalls inh k cred user))) \<and>
   objects (eventCalls Mixpanel event) =
     (case ev_properties event of None \<Rightarrow> [] | Some es \<Rightarrow> [es]) \<and>
   objects (pageViewCalls Mixpanel cred pageView) =
     [spread [(''url'', JStr (pv_url pageView)), (''title'', titleValue pageView)]
        (orEmpty (pv_properties pageView))]"
proof (intro conjI impI)
  show "map_of (mapToMixpanelProperties inh properties) =
     map_of (rev (map (\<lambda>(key, value). (mappedKey inh key, value)) properties))"
    by (rule map_of_mapToMixpanelProperties)
next
  assume "distinct (map (mappedKey inh \<circ> fst) properties)"
  then show "mapToMixpanelProperties inh properties =
        map (\<lambda>(key, value). (mappedKey inh key, value)) properties"
    by (rule mapToMixpanelProperties_distinct)
next
  assume "k \<noteq> Mixpanel" "user_properties user = Some ps"
  then show "ps \<in> set (objects (identifyCalls inh k cred user))"
    by (rule identify_forwards_unchanged)
qed (simp_all add: mappedKey_def objects_def propsArg_def split: option.splits)

text \<open>The test's user: \<^verbatim>\<open>email\<close> and \<^verbatim>\<open>firstName\<close> are renamed, \<^verbatim>\<open>plan\<close> is
  kept; GA4 receives a user's properties as given.\<close>

theorem mixpanel_remaps_identify_only_witness:
  "distinct (map (mappedKey (\<lambda>k. None) \<circ> fst)
     [(''email'', JStr ''john@example.com''), (''firstName'', JStr ''John''), (''plan'', JStr ''premium'')]) \<and>
   mapToMixpanelProperties (\<lambda>k. None)
     [(''email'', JStr ''john@example.com''), (''firstName'', JStr ''John''), (''plan'', JStr ''premium'')] =
     [(''$email'', JStr ''john@example.com''), (''$first_name'', JStr ''John''),
      (''plan'', JStr ''premium'')] \<and>
   map_of propertyMap ''plan'' = None \<and>
   mappedKey (\<lambda>k. None) ''plan'' = ''plan'' \<and>
   map_of propertyMap ''email'' = Some ''$email'' \<and>
   mappedKey (\<lambda>k. None) ''email'' = ''$email'' \<and>
   GA4 \<noteq> Mixpanel \<and>
   [(''b'', JNum 2)] \<in> set (objects (identifyCalls (\<lambda>k. None) GA4 ''G-TEST123'' demoUser))"
  using mixpanel_remaps_identify_only
    [where inh = "\<lambda>k. None"
       and properties = "[(''email'', JStr ''john@example.com''), (''firstName'', JStr ''John''),
                          (''plan'', JStr ''premium'')]"
       and key = "''plan''" and key' = "''plan''" and cred = "''G-TEST123''" and user = demoUser
       and k = GA4 and ps = "[(''b'', JNum 2)]" and event = demoEvent and pageView = demoPageView]
    mixpanel_remaps_identify_only
    [where inh = "\<lambda>k. None" and properties = "[]"
       and key = "''email''" and key' = "''$email''" and cred = "''G-TEST123''" and user = demoUser
       and k = GA4 and ps = "[(''b'', JNum 2)]" and event = demoEvent and pageView = demoPageView]
  by (simp add: provider_eval objects_def)

text \<open>Amplitude has no table: \<^verbatim>\<open>email\<close> reaches it as \<^verbatim>\<open>email\<close>. And
  Mixpanel's table sends \<^verbatim>\<open>firstName\<close> and \<^verbatim>\<open>first_name\<close> to one key, so of two
  values given under them one is lost.\<close>

theorem remapping_counterexample:
  "calls (identifyUser allPresent
     \<lparr>user_id = ''u1'', user_properties = Some [(''email'', JStr ''john@example.com'')]\<rparr>
     (base_enable (AmplitudeProvider ''test-api-key'' []))) =
     [Call ''amplitude.getInstance().setUserId'' [AStr ''u1''],
      Call ''amplitude.getInstance().setUserProperties''
        [AObj [(''email'', JStr ''john@example.com'')]]] \<and>
   mapToMixpanelProperties (\<lambda>k. None)
     [(''firstName'', JStr ''John''), (''first_name'', JStr ''Johnny'')] =
     [(''$first_name'', JStr ''Johnny'')]"
  by (simp add: provider_eval proxy_eval)

subsection \<open>C10: isProviderEnabled and getProviderStatus\<close>

text \<open>
  Claim C10. \<^verbatim>\<open>isProviderEnabled(name)\<close> is false for a name with no registered
  provider, and for a registered name (the keys of the map being distinct, as
  the keys of a \<^verbatim>\<open>Map\<close> are) the entry of \<^verbatim>\<open>getProviderStatus()\<close> under that
  name is \<^verbatim>\<open>isProviderEnabled(name)\<close>, both being the provider's \<open>enabled\<close>
  flag.
\<close>

theorem status_agrees_with_isProviderEnabled:
  "(map_of (providers s) n = None \<longrightarrow> isProviderEnabled n s = False) \<and>
   (distinct (map fst (providers s)) \<longrightarrow> map_of (providers s) n = Some p \<longrightarrow>
      map_of (getProviderStatus s) n = Some (isProviderEnabled n s) \<and>
      isProviderEnabled n s = enabled p)"
proof (intro conjI impI)
  assume "map_of (providers s) n = None"
  then show "isProviderEnabled n s = False" by (simp add: isProviderEnabled_def)
next
  assume d: "distinct (map fst (providers s))" and p: "map_of (providers s) n = Some p"
  have "getProviderStatus s = map (\<lambda>(n, p). (n, isEnabled p)) (providers s)"
    unfolding getProviderStatus_def using d by (rule status_distinct)
  then have "map_of (getProviderStatus s) n = Some (isEnabled p)"
    using p by (simp add: map_of_map_values)
  moreover have "isProviderEnabled n s = isEnabled p" using p by (simp add: isProviderEnabled_def)
  ultimately show "map_of (getProviderStatus s) n = Some (isProviderEnabled n s)"
    and "isProviderEnabled n s = enabled p"
    by (simp_all add: isEnabled_def)
qed

theorem status_agrees_with_isProviderEnabled_witness:
  "map_of (providers (AnalyticsProxy base_enable (configOf \<lparr>mixpanel = on ''test-token'',
      ga4 = on ''G-TEST123'', logrocket = None, amplitude = None\<rparr>))) ''logrocket'' = None \<and>
   isProviderEnabled ''logrocket'' (AnalyticsProxy base_enable (configOf \<lparr>mixpanel = on ''test-token'',
      ga4 = on ''G-TEST123'', logrocket = None, amplitude = None\<rparr>)) = False \<and>
   distinct (map fst (providers (AnalyticsProxy base_enable (configOf \<lparr>mixpanel = on ''test-token'',
      ga4 = on ''G-TEST123'', logrocket = None, amplitude = None\<rparr>)))) \<and>
   map_of (getProviderStatus (AnalyticsProxy base_enable (configOf \<lparr>mixpanel = on ''test-token'',
      ga4 = on ''G-TEST123'', logrocket = None, amplitude = None\<rparr>))) ''ga4'' = Some True \<and>
   isProviderEnabled ''ga4'' (AnalyticsProxy base_enable (configOf \<lparr>mixpanel = on ''test-token'',
      ga4 = on ''G-TEST123'', logrocket = None, amplitude = None\<rparr>)) = True"
  using status_agrees_with_isProviderEnabled
    [of "AnalyticsProxy base_enable (configOf \<lparr>mixpanel = on ''test-token'',
      ga4 = on ''G-TEST123'', logrocket = None, amplitude = None\<rparr>)" "''logrocket''"]
    status_agrees_with_isProviderEnabled
    [of "AnalyticsProxy base_enable (configOf \<lparr>mixpanel = on ''test-token'',
      ga4 = on ''G-TEST123'', logrocket = None, amplitude = None\<rparr>)" "''ga4''"]
  by (simp add: proxy_eval base_enable_def)

end
